theory Spec2Isabelle
  imports Complex_Main
begin

section \<open>Python built-ins used by the response interpreter\<close>

text \<open>
  The interpreter (\<^verbatim>\<open>src/ojp/parsers.py\<close>) works on Python \<^verbatim>\<open>str\<close> values. A string is
  modelled as a list of code points below 256 (the Latin-1 range), one \<^typ>\<open>char\<close> each.
  The built-ins below follow CPython on that range.
\<close>

definition is_digit :: "char \<Rightarrow> bool" where
  \<comment> \<open>The decimal digits \<^verbatim>\<open>0\<close> .. \<^verbatim>\<open>9\<close>, the only characters of category Nd below 256.\<close>
  "is_digit c = (let n = (of_char c :: nat) in 48 \<le> n \<and> n \<le> 57)"

definition digit_val :: "char \<Rightarrow> int" where
  "digit_val c = int (of_char c) - 48"

definition py_isspace :: "char \<Rightarrow> bool" where
  \<comment> \<open>\<^verbatim>\<open>str.isspace\<close> on one character: TAB..CR, FS..US, space, NEL, NBSP.\<close>
  "py_isspace c =
     (let n = (of_char c :: nat)
      in (9 \<le> n \<and> n \<le> 13) \<or> (28 \<le> n \<and> n \<le> 32) \<or> n = 133 \<or> n = 160)"

definition py_strip :: "string \<Rightarrow> string" where
  \<comment> \<open>The whitespace \<^verbatim>\<open>int()\<close> ignores on both sides of its argument.\<close>
  "py_strip s = rev (dropWhile py_isspace (rev (dropWhile py_isspace s)))"

fun int_body :: "bool \<Rightarrow> int \<Rightarrow> string \<Rightarrow> int option" where
  \<comment> \<open>Digits with single underscores between them; the flag says that the previous
      character was a digit. Anything else is a \<^verbatim>\<open>ValueError\<close> (\<open>None\<close>).\<close>
  "int_body prev acc [] = (if prev then Some acc else None)"
| "int_body prev acc (c # cs) =
     (if is_digit c then int_body True (acc * 10 + digit_val c) cs
      else if c = CHR ''_'' \<and> prev then int_body False acc cs
      else None)"

definition py_int :: "nat \<Rightarrow> string \<Rightarrow> int option" where
  \<comment> \<open>\<^verbatim>\<open>int(s)\<close> in base 10; \<open>None\<close> is the \<^verbatim>\<open>ValueError\<close>. The first argument is
      the interpreter's \<^verbatim>\<open>sys.get_int_max_str_digits()\<close>: 0 switches the limit off (as it
      is in interpreters older than the limit), otherwise a literal with more digits
      is refused.\<close>
  "py_int max_str_digits s =
     (let t = py_strip s;
          neg = (case t of [] \<Rightarrow> False | c # _ \<Rightarrow> c = CHR ''-'');
          body = (case t of [] \<Rightarrow> []
                  | c # cs \<Rightarrow> if c = CHR ''-'' \<or> c = CHR ''+'' then cs else t)
      in if 0 < max_str_digits \<and> max_str_digits < length (filter is_digit body) then None
         else (case int_body False 0 body of
                 None \<Rightarrow> None
               | Some v \<Rightarrow> Some (if neg then - v else v)))"

definition is_digits :: "string \<Rightarrow> bool" where
  \<comment> \<open>A string of decimal digits, at least one.\<close>
  "is_digits s = (s \<noteq> [] \<and> list_all is_digit s)"

definition decimal :: "string \<Rightarrow> int" where
  \<comment> \<open>The number a string of decimal digits writes.\<close>
  "decimal s = foldl (\<lambda>a c. a * 10 + digit_val c) 0 s"

fun py_split :: "char \<Rightarrow> string \<Rightarrow> string list" where
  \<comment> \<open>\<^verbatim>\<open>s.split(sep)\<close> for a one-character separator.\<close>
  "py_split sep [] = [[]]"
| "py_split sep (c # cs) =
     (if c = sep then [] # py_split sep cs
      else (case py_split sep cs of
              [] \<Rightarrow> [[c]]
            | p # ps \<Rightarrow> (c # p) # ps))"

definition py_replace_empty :: "char \<Rightarrow> string \<Rightarrow> string" where
  \<comment> \<open>\<^verbatim>\<open>s.replace(c, '')\<close>.\<close>
  "py_replace_empty c s = filter (\<lambda>x. x \<noteq> c) s"

definition startswith :: "string \<Rightarrow> string \<Rightarrow> bool" where
  "startswith s p = (take (length p) s = p)"

definition py_lower_char :: "char \<Rightarrow> char" where
  \<comment> \<open>\<^verbatim>\<open>str.lower\<close> on one character below 256: A..Z and the accented capitals
      (without the multiplication sign) move up by 32.\<close>
  "py_lower_char c =
     (let n = (of_char c :: nat)
      in if (65 \<le> n \<and> n \<le> 90) \<or> (192 \<le> n \<and> n \<le> 222 \<and> n \<noteq> 215)
         then char_of (n + 32) else c)"

definition py_lower :: "string \<Rightarrow> string" where
  "py_lower s = map py_lower_char s"

definition truthy :: "string option \<Rightarrow> bool" where
  \<comment> \<open>Truth value of an \<^verbatim>\<open>Optional[str]\<close>: \<^verbatim>\<open>None\<close> and \<^verbatim>\<open>''\<close> are false.\<close>
  "truthy x = (case x of None \<Rightarrow> False | Some s \<Rightarrow> s \<noteq> [])"

section \<open>Duration Decoder\<close>

definition parse_iso_duration :: "nat \<Rightarrow> string \<Rightarrow> int option" where
  \<comment> \<open>\<^verbatim>\<open>OJPParser._parse_iso_duration\<close>. \<open>None\<close> is the method's \<^verbatim>\<open>None\<close>, returned
      at once for a missing \<^verbatim>\<open>PT\<close> and from the handler of \<^verbatim>\<open>ValueError\<close>.\<close>
  "parse_iso_duration max_str_digits duration_text =
     (if \<not> startswith duration_text ''PT'' then None
      else
        let text1 = drop 2 duration_text;
            hours_step =
              (if CHR ''H'' \<in> set text1 then
                 (let parts = py_split (CHR ''H'') text1 in
                    case py_int max_str_digits (parts ! 0) of
                      None \<Rightarrow> None
                    | Some hours \<Rightarrow>
                        Some (hours * 60, if 1 < length parts then parts ! 1 else []))
               else Some (0, text1))
        in case hours_step of
             None \<Rightarrow> None
           | Some (minutes, text2) \<Rightarrow>
               if CHR ''M'' \<in> set text2 then
                 (let minutes_part = py_replace_empty (CHR ''M'') text2 in
                    if minutes_part \<noteq> [] then
                      (case py_int max_str_digits minutes_part of
                         None \<Rightarrow> None
                       | Some m \<Rightarrow> Some (minutes + m))
                    else Some minutes)
               else Some minutes)"

section \<open>Documents\<close>

text \<open>
  An lxml element as far as the interpreter reads it: its qualified tag (namespace URI
  and local name), its \<^verbatim>\<open>.text\<close> (the text before the first child, \<^verbatim>\<open>None\<close> when there is
  none) and its child elements in document order. Attributes, tails, comments and
  processing instructions are never read and no path below selects them.
\<close>

type_synonym qname = "string \<times> string"

datatype element = Element (tag: qname) (elem_text: "string option") (children: "element list")

definition ojp :: "string \<Rightarrow> qname" where
  "ojp local = (''http://www.vdv.de/ojp'', local)"

definition siri :: "string \<Rightarrow> qname" where
  "siri local = (''http://www.siri.org.uk/siri'', local)"

fun descendants :: "element \<Rightarrow> element list" where
  \<comment> \<open>The proper descendants in document order.\<close>
  "descendants (Element t x cs) = concat (map (\<lambda>c. c # descendants c) cs)"

definition xpath_child :: "qname \<Rightarrow> element \<Rightarrow> element list" where
  \<comment> \<open>\<^verbatim>\<open>e.xpath('./a')\<close>.\<close>
  "xpath_child a e = filter (\<lambda>c. tag c = a) (children e)"

definition xpath_child2 :: "qname \<Rightarrow> qname \<Rightarrow> element \<Rightarrow> element list" where
  \<comment> \<open>\<^verbatim>\<open>e.xpath('./a/b')\<close>.\<close>
  "xpath_child2 a b e = concat (map (xpath_child b) (xpath_child a e))"

definition xpath_child3 :: "qname \<Rightarrow> qname \<Rightarrow> qname \<Rightarrow> element \<Rightarrow> element list" where
  \<comment> \<open>\<^verbatim>\<open>e.xpath('./a/b/c')\<close>.\<close>
  "xpath_child3 a b c e = concat (map (xpath_child c) (xpath_child2 a b e))"

definition xpath_desc :: "qname \<Rightarrow> element \<Rightarrow> element list" where
  \<comment> \<open>\<^verbatim>\<open>e.xpath('.//a')\<close>.\<close>
  "xpath_desc a e = filter (\<lambda>c. tag c = a) (descendants e)"

fun children_under :: "qname \<Rightarrow> qname \<Rightarrow> element \<Rightarrow> element list" where
  \<comment> \<open>Below (and including) a node: every \<open>b\<close> whose parent is an \<open>a\<close>, in document
      order.\<close>
  "children_under a b (Element t x cs) =
     concat (map (\<lambda>d. (if t = a \<and> tag d = b then [d] else []) @ children_under a b d) cs)"

definition xpath_desc_child :: "qname \<Rightarrow> qname \<Rightarrow> element \<Rightarrow> element list" where
  \<comment> \<open>\<^verbatim>\<open>e.xpath('.//a/b')\<close>: the \<open>b\<close> children of the \<open>a\<close> proper descendants of \<open>e\<close>.\<close>
  "xpath_desc_child a b e = concat (map (children_under a b) (children e))"

definition xpath_all :: "qname \<Rightarrow> element \<Rightarrow> element list" where
  \<comment> \<open>\<^verbatim>\<open>root.xpath('//a')\<close> on the root element of a document.\<close>
  "xpath_all a doc = filter (\<lambda>c. tag c = a) (doc # descendants doc)"

definition first_text :: "element list \<Rightarrow> string option" where
  \<comment> \<open>\<^verbatim>\<open>elems[0].text if elems else None\<close>.\<close>
  "first_text elems = (case elems of [] \<Rightarrow> None | e # _ \<Rightarrow> elem_text e)"

section \<open>Data model\<close>

text \<open>
  The pydantic models of \<^verbatim>\<open>src/ojp/models.py\<close>. A model's constructor validates its
  fields and raises \<^verbatim>\<open>ValidationError\<close>, a subclass of \<^verbatim>\<open>ValueError\<close>; each
  \<open>mk_\<close> function below is such a constructor.
\<close>

datatype py_error = ValueError | TypeError | ValidationError

definition is_ValueError_or_TypeError :: "py_error \<Rightarrow> bool" where
  \<comment> \<open>What \<^verbatim>\<open>except (ValueError, TypeError)\<close> catches.\<close>
  "is_ValueError_or_TypeError e = (e = ValueError \<or> e = TypeError \<or> e = ValidationError)"

datatype pyfloat = Finite real | PosInf | NegInf | NaN

definition float_between :: "real \<Rightarrow> real \<Rightarrow> pyfloat \<Rightarrow> bool" where
  \<comment> \<open>\<^verbatim>\<open>Field(ge=lo, le=hi)\<close>.\<close>
  "float_between lo hi v = (case v of Finite r \<Rightarrow> lo \<le> r \<and> r \<le> hi | _ \<Rightarrow> False)"

record Coordinates =
  longitude :: pyfloat
  latitude :: pyfloat

definition mk_Coordinates :: "pyfloat \<Rightarrow> pyfloat \<Rightarrow> py_error + Coordinates" where
  "mk_Coordinates lon lat =
     (if float_between (-180) 180 lon \<and> float_between (-90) 90 lat
      then Inr \<lparr>longitude = lon, latitude = lat\<rparr>
      else Inl ValidationError)"

datatype location_type = Stop | Poi | Address

record Location =
  location_id :: "string option"
  name :: string
  coordinates :: "Coordinates option"
  location_type :: location_type
  probability :: "pyfloat option"

definition mk_Location ::
  "string option \<Rightarrow> string option \<Rightarrow> Coordinates option \<Rightarrow> pyfloat option \<Rightarrow> py_error + Location" where
  \<comment> \<open>\<^verbatim>\<open>Location(id=.., name=.., coordinates=.., type="stop", probability=..)\<close>: the
      name is a required \<^verbatim>\<open>str\<close>, the probability lies in [0, 1] when given.\<close>
  "mk_Location i n c p =
     (case n of
        None \<Rightarrow> Inl ValidationError
      | Some nm \<Rightarrow>
          (case p of
             None \<Rightarrow> Inr \<lparr>location_id = i, name = nm, coordinates = c,
                            location_type = Stop, probability = None\<rparr>
           | Some v \<Rightarrow>
               if float_between 0 1 v
               then Inr \<lparr>location_id = i, name = nm, coordinates = c,
                          location_type = Stop, probability = Some v\<rparr>
               else Inl ValidationError))"

definition unknown_location :: Location where
  \<comment> \<open>\<^verbatim>\<open>Location(name="Unknown", probability=None)\<close>.\<close>
  "unknown_location = \<lparr>location_id = None, name = ''Unknown'', coordinates = None,
                         location_type = Stop, probability = None\<rparr>"

text \<open>
  A \<^verbatim>\<open>datetime\<close>: its UTC offset in microseconds (\<open>None\<close> for a naive value) and its
  wall-clock reading in microseconds since the first instant of the calendar.
\<close>

record datetime =
  utcoffset :: "int option"
  wallclock :: int

definition datetime_sub :: "datetime \<Rightarrow> datetime \<Rightarrow> py_error + int" where
  \<comment> \<open>\<^verbatim>\<open>a - b\<close>, a \<^verbatim>\<open>timedelta\<close> in microseconds; naive and aware values do not mix.\<close>
  "datetime_sub a b =
     (case (utcoffset a, utcoffset b) of
        (None, None) \<Rightarrow> Inr (wallclock a - wallclock b)
      | (Some oa, Some ob) \<Rightarrow> Inr ((wallclock a - oa) - (wallclock b - ob))
      | _ \<Rightarrow> Inl TypeError)"

definition whole_minutes :: "int \<Rightarrow> int" where
  \<comment> \<open>\<^verbatim>\<open>int(td.total_seconds() / 60)\<close> for a \<^verbatim>\<open>timedelta\<close> of \<open>d\<close> microseconds:
      \<^verbatim>\<open>int\<close> cuts the fraction off, towards zero. The quotient is taken exactly (the
      rounding of the float division is left out).\<close>
  "whole_minutes d = sgn d * (\<bar>d\<bar> div 60000000)"

record Leg =
  mode :: string
  origin :: Location
  destination :: Location
  departure_time :: "datetime option"
  arrival_time :: "datetime option"
  duration_minutes :: "int option"
  distance_meters :: "int option"
  line_name :: "string option"
  direction :: "string option"

record Trip =
  legs :: "Leg list"
  total_duration_minutes :: int
  total_distance_meters :: "int option"
  trip_departure_time :: datetime
  trip_arrival_time :: datetime
  transfers :: int

definition mk_Trip ::
  "Leg list \<Rightarrow> int \<Rightarrow> datetime option \<Rightarrow> datetime option \<Rightarrow> int \<Rightarrow> py_error + Trip" where
  \<comment> \<open>\<^verbatim>\<open>Trip(legs=.., total_duration_minutes=.., departure_time=.., arrival_time=..,
      transfers=..)\<close>: both times are declared \<^verbatim>\<open>datetime\<close>, not \<^verbatim>\<open>Optional\<close>, so
      \<^verbatim>\<open>None\<close> does not validate.\<close>
  "mk_Trip ls tot dep arr tr =
     (case dep of
        None \<Rightarrow> Inl ValidationError
      | Some d \<Rightarrow>
          (case arr of
             None \<Rightarrow> Inl ValidationError
           | Some a \<Rightarrow> Inr \<lparr>legs = ls, total_duration_minutes = tot,
                              total_distance_meters = None, trip_departure_time = d,
                              trip_arrival_time = a, transfers = tr\<rparr>))"

text \<open>The response envelopes, without the creation timestamp (the clock is not modelled).\<close>

record TripResponse =
  trip_success :: bool
  trip_error_message :: "string option"
  trips :: "Trip list"

record LocationResponse =
  location_success :: bool
  location_error_message :: "string option"
  locations :: "Location list"

text \<open>
  The library functions the interpreter calls, as it finds them at run time:
  \<^verbatim>\<open>sys.get_int_max_str_digits()\<close>, \<^verbatim>\<open>dateutil.parser.parse\<close> and \<^verbatim>\<open>float\<close> on a
  string (\<open>None\<close> when they raise), and \<^verbatim>\<open>etree.fromstring(s.encode('utf-8'))\<close>
  (\<open>Inl\<close> the text of the exception raised, \<open>Inr\<close> the root element).
\<close>

record runtime =
  max_str_digits :: nat
  dateutil_parse :: "string \<Rightarrow> datetime option"
  float_of_str :: "string \<Rightarrow> pyfloat option"
  fromstring :: "string \<Rightarrow> string + element"

definition parse_datetime :: "runtime \<Rightarrow> string option \<Rightarrow> datetime option" where
  \<comment> \<open>\<^verbatim>\<open>try: t = date_parser.parse(text) / except Exception: pass\<close>; \<^verbatim>\<open>parse(None)\<close>
      raises too.\<close>
  "parse_datetime rt x = (case x of None \<Rightarrow> None | Some s \<Rightarrow> dateutil_parse rt s)"

definition py_float :: "runtime \<Rightarrow> string option \<Rightarrow> py_error + pyfloat" where
  \<comment> \<open>\<^verbatim>\<open>float(text)\<close>: \<^verbatim>\<open>TypeError\<close> for \<^verbatim>\<open>None\<close>, \<^verbatim>\<open>ValueError\<close> for a string that is
      no number.\<close>
  "py_float rt x =
     (case x of
        None \<Rightarrow> Inl TypeError
      | Some s \<Rightarrow> (case float_of_str rt s of None \<Rightarrow> Inl ValueError | Some v \<Rightarrow> Inr v))"

section \<open>Location Extractor\<close>

definition or_unknown :: "py_error + Location \<Rightarrow> Location" where
  \<comment> \<open>\<^verbatim>\<open>try: return Location(..) / except Exception: return Location(name="Unknown",
      probability=None)\<close>.\<close>
  "or_unknown r = (case r of Inl e \<Rightarrow> unknown_location | Inr l \<Rightarrow> l)"

definition parse_leg_board_alight :: "element \<Rightarrow> Location" where
  \<comment> \<open>\<^verbatim>\<open>OJPParser._parse_leg_board_alight\<close>.\<close>
  "parse_leg_board_alight location_elem =
     (let name_elem = xpath_desc_child (ojp ''StopPointName'') (ojp ''Text'') location_elem;
          nm = (case name_elem of [] \<Rightarrow> Some ''Unknown'' | e # _ \<Rightarrow> elem_text e);
          ref_elem = xpath_desc (siri ''StopPointRef'') location_elem;
          loc_id = first_text ref_elem
      in or_unknown (mk_Location loc_id nm None None))"

definition parse_transfer_location :: "element \<Rightarrow> Location" where
  \<comment> \<open>\<^verbatim>\<open>OJPParser._parse_transfer_location\<close>.\<close>
  "parse_transfer_location location_elem =
     (let name_elem0 = xpath_desc_child (ojp ''Name'') (ojp ''Text'') location_elem;
          name_elem = (if name_elem0 = []
                       then xpath_desc_child (ojp ''n'') (ojp ''Text'') location_elem
                       else name_elem0);
          nm = (case name_elem of [] \<Rightarrow> Some ''Unknown'' | e # _ \<Rightarrow> elem_text e);
          ref_elem = xpath_desc (siri ''StopPointRef'') location_elem;
          loc_id = first_text ref_elem
      in or_unknown (mk_Location loc_id nm None None))"

definition place_coordinates :: "runtime \<Rightarrow> element \<Rightarrow> Coordinates option" where
  \<comment> \<open>Lines 474 to 487 of \<^verbatim>\<open>_parse_place_result\<close>: the conversions and the
      constructor stand inside \<^verbatim>\<open>try\<close>, and \<^verbatim>\<open>except (ValueError, TypeError): pass\<close>
      leaves the coordinates \<^verbatim>\<open>None\<close>.\<close>
  "place_coordinates rt place =
     (case xpath_child (ojp ''GeoPosition'') place of
        [] \<Rightarrow> None
      | geo # _ \<Rightarrow>
          (let lon_elem = xpath_child (siri ''Longitude'') geo;
               lat_elem = xpath_child (siri ''Latitude'') geo
           in if lon_elem \<noteq> [] \<and> lat_elem \<noteq> [] then
                (case py_float rt (first_text lon_elem) of
                   Inl e \<Rightarrow> None
                 | Inr lon \<Rightarrow>
                     (case py_float rt (first_text lat_elem) of
                        Inl e \<Rightarrow> None
                      | Inr lat \<Rightarrow>
                          (case mk_Coordinates lon lat of
                             Inl e \<Rightarrow> None
                           | Inr c \<Rightarrow> Some c)))
              else None))"

definition place_probability :: "runtime \<Rightarrow> element \<Rightarrow> pyfloat option" where
  \<comment> \<open>Lines 496 to 502 of \<^verbatim>\<open>_parse_place_result\<close>: only the conversion stands
      inside \<^verbatim>\<open>try\<close>.\<close>
  "place_probability rt place_elem =
     (case xpath_child (ojp ''Probability'') place_elem of
        [] \<Rightarrow> None
      | prob # _ \<Rightarrow>
          (case py_float rt (elem_text prob) of
             Inl e \<Rightarrow> None
           | Inr v \<Rightarrow> Some v))"

definition place_name :: "element \<Rightarrow> string option" where
  \<comment> \<open>Lines 462 to 468 of \<^verbatim>\<open>_parse_place_result\<close>: the name, else the stop
      place's name.\<close>
  "place_name place =
     (let name0 = first_text (xpath_child2 (ojp ''Name'') (ojp ''Text'') place)
      in if \<not> truthy name0
         then first_text (xpath_child3 (ojp ''StopPlace'') (ojp ''StopPlaceName'')
                            (ojp ''Text'') place)
         else name0)"

definition parse_place_result :: "runtime \<Rightarrow> element \<Rightarrow> Location option" where
  \<comment> \<open>\<^verbatim>\<open>OJPParser._parse_place_result\<close>; the outer \<^verbatim>\<open>except Exception: return None\<close>
      catches what the \<^verbatim>\<open>Location\<close> constructor raises.\<close>
  "parse_place_result rt place_elem =
     (case xpath_child (ojp ''Place'') place_elem of
        [] \<Rightarrow> None
      | place # _ \<Rightarrow>
          if \<not> truthy (place_name place) then None
          else
            (let coords = place_coordinates rt place;
                 loc_id = first_text (xpath_child2 (ojp ''StopPlace'') (ojp ''StopPlaceRef'')
                                        place);
                 prob = place_probability rt place_elem
             in case mk_Location loc_id (place_name place) coords prob of
                  Inl e \<Rightarrow> None
                | Inr l \<Rightarrow> Some l))"

section \<open>Leg Classifier and Decoder\<close>

definition mk_Leg ::
  "string \<Rightarrow> Location \<Rightarrow> Location \<Rightarrow> datetime option \<Rightarrow> datetime option \<Rightarrow> int option \<Rightarrow>
   string option \<Rightarrow> string option \<Rightarrow> Leg" where
  \<comment> \<open>\<^verbatim>\<open>Leg(..)\<close>: every argument the decoders pass has the declared type, so the
      constructor never raises.\<close>
  "mk_Leg m orig dest dep arr dur line dir =
     \<lparr>mode = m, origin = orig, destination = dest, departure_time = dep,
      arrival_time = arr, duration_minutes = dur, distance_meters = None,
      line_name = line, direction = dir\<rparr>"

definition rail_mode :: "string \<Rightarrow> string" where
  \<comment> \<open>Lines 224 to 233.\<close>
  "rail_mode submode =
     (if submode = ''regionalRail'' then ''regional_train''
      else if submode = ''suburbanRailway'' then ''s_bahn''
      else if submode = ''interregionalRail'' then ''intercity''
      else if submode = ''highSpeedRail'' then ''high_speed_rail''
      else ''train'')"

definition bus_mode :: "string \<Rightarrow> string" where
  \<comment> \<open>Lines 239 to 246.\<close>
  "bus_mode submode =
     (if submode = ''localBus'' then ''bus''
      else if submode = ''expressBus'' then ''express_bus''
      else if submode = ''nightBus'' then ''night_bus''
      else ''bus'')"

definition present :: "string option \<Rightarrow> string option" where
  \<comment> \<open>A text that is there and not empty: \<^verbatim>\<open>if elems: t = elems[0].text; if t: ..\<close>
      and \<^verbatim>\<open>if elems and elems[0].text: ..\<close> go on with that text.\<close>
  "present x = (if truthy x then x else None)"

definition service_mode :: "element \<Rightarrow> string" where
  \<comment> \<open>Lines 212 to 254 of \<^verbatim>\<open>_parse_timed_leg\<close>, on \<^verbatim>\<open>service[0]\<close>: the mode starts
      as \<^verbatim>\<open>"public_transport"\<close>, and a primary mode replaces it by its lower-cased
      text before the chain of comparisons.\<close>
  "service_mode service =
     (case present (first_text (xpath_desc_child (ojp ''Mode'') (ojp ''PtMode'') service)) of
        None \<Rightarrow> ''public_transport''
      | Some pt_mode \<Rightarrow>
          if py_lower pt_mode = ''rail'' then
            (case present (first_text (xpath_desc_child (ojp ''Mode'') (siri ''RailSubmode'')
                                         service)) of
               None \<Rightarrow> py_lower pt_mode
             | Some submode \<Rightarrow> rail_mode submode)
          else if py_lower pt_mode = ''bus'' then
            (case present (first_text (xpath_desc_child (ojp ''Mode'') (siri ''BusSubmode'')
                                         service)) of
               None \<Rightarrow> py_lower pt_mode
             | Some submode \<Rightarrow> bus_mode submode)
          else if py_lower pt_mode = ''tram'' then ''tram''
          else if py_lower pt_mode = ''metro'' then ''metro''
          else if py_lower pt_mode = ''funicular'' then ''funicular''
          else if py_lower pt_mode = ''cableCar'' then ''cable_car''
          else py_lower pt_mode)"

definition service_line_name :: "element \<Rightarrow> string option" where
  \<comment> \<open>Lines 197 to 205.\<close>
  "service_line_name service =
     (let line_elem = xpath_desc_child (ojp ''PublishedServiceName'') (ojp ''Text'') service;
          line0 = first_text line_elem
      in if \<not> truthy line0
         then (case xpath_desc (ojp ''PublicCode'') service of
                 [] \<Rightarrow> line0
               | code # _ \<Rightarrow> elem_text code)
         else line0)"

definition service_time :: "runtime \<Rightarrow> string \<Rightarrow> element \<Rightarrow> datetime option" where
  \<comment> \<open>Lines 170 to 177 (with \<^verbatim>\<open>ServiceDeparture\<close>) and 180 to 187 (with
      \<^verbatim>\<open>ServiceArrival\<close>): the estimated time, else the timetabled one.\<close>
  "service_time rt call point =
     (let est = xpath_desc_child (ojp call) (ojp ''EstimatedTime'') point;
          time_elem = (if est = []
                       then xpath_desc_child (ojp call) (ojp ''TimetabledTime'') point
                       else est)
      in case time_elem of
           [] \<Rightarrow> None
         | e # _ \<Rightarrow> parse_datetime rt (elem_text e))"

definition parse_timed_leg :: "runtime \<Rightarrow> element \<Rightarrow> Leg option" where
  \<comment> \<open>\<^verbatim>\<open>OJPParser._parse_timed_leg\<close>.\<close>
  "parse_timed_leg rt leg_elem =
     (case xpath_desc (ojp ''LegBoard'') leg_elem of
        [] \<Rightarrow> None
      | board # _ \<Rightarrow>
          (case xpath_desc (ojp ''LegAlight'') leg_elem of
             [] \<Rightarrow> None
           | alight # _ \<Rightarrow>
               (let orig = parse_leg_board_alight board;
                    dest = parse_leg_board_alight alight;
                    dep = service_time rt ''ServiceDeparture'' board;
                    arr = service_time rt ''ServiceArrival'' alight
                in case xpath_desc (ojp ''Service'') leg_elem of
                     [] \<Rightarrow> Some (mk_Leg ''public_transport'' orig dest dep arr None None None)
                   | service # _ \<Rightarrow>
                       Some (mk_Leg (service_mode service) orig dest dep arr None
                               (service_line_name service)
                               (first_text (xpath_desc_child (ojp ''DestinationText'')
                                              (ojp ''Text'') service))))))"

definition transfer_mode :: "element list \<Rightarrow> string" where
  \<comment> \<open>Lines 286 to 290 and 327 to 331: \<^verbatim>\<open>"walking"\<close> unless the transfer type has a
      text.\<close>
  "transfer_mode transfer_type_elem =
     (case transfer_type_elem of
        [] \<Rightarrow> ''walking''
      | e # _ \<Rightarrow>
          (case elem_text e of
             None \<Rightarrow> ''walking''
           | Some mode_text \<Rightarrow> if mode_text = [] then ''walking'' else py_lower mode_text))"

definition leg_duration :: "runtime \<Rightarrow> element list \<Rightarrow> int option" where
  \<comment> \<open>Lines 297 to 302 and 338 to 343.\<close>
  "leg_duration rt duration_elem =
     (case duration_elem of
        [] \<Rightarrow> None
      | e # _ \<Rightarrow>
          (case elem_text e of
             None \<Rightarrow> None
           | Some duration_text \<Rightarrow>
               if duration_text = [] then None
               else parse_iso_duration (max_str_digits rt) duration_text))"

definition endpoint :: "element list \<Rightarrow> Location" where
  \<comment> \<open>\<^verbatim>\<open>(cls._parse_transfer_location(elems[0]) if elems else None) or
      Location(name="Unknown", probability=None)\<close>; a model instance is true.\<close>
  "endpoint elems =
     (case elems of [] \<Rightarrow> unknown_location | e # _ \<Rightarrow> parse_transfer_location e)"

definition parse_continuous_leg :: "runtime \<Rightarrow> element \<Rightarrow> Leg option" where
  \<comment> \<open>\<^verbatim>\<open>OJPParser._parse_continuous_leg\<close>.\<close>
  "parse_continuous_leg rt leg_elem =
     (case xpath_desc (ojp ''TransferLeg'') leg_elem of
        [] \<Rightarrow> None
      | transfer_leg # _ \<Rightarrow>
          (let duration0 = xpath_desc (ojp ''Duration'') leg_elem;
               duration_elem = (if duration0 = []
                                then xpath_desc (ojp ''Duration'') transfer_leg
                                else duration0)
           in Some (mk_Leg (transfer_mode (xpath_desc (ojp ''TransferType'') transfer_leg))
                      (endpoint (xpath_desc (ojp ''LegStart'') transfer_leg))
                      (endpoint (xpath_desc (ojp ''LegEnd'') transfer_leg))
                      None None (leg_duration rt duration_elem) None None)))"

definition parse_transfer_leg :: "runtime \<Rightarrow> element \<Rightarrow> element \<Rightarrow> Leg option" where
  \<comment> \<open>\<^verbatim>\<open>OJPParser._parse_transfer_leg\<close>.\<close>
  "parse_transfer_leg rt leg_elem transfer_leg_elem =
     (let duration0 = xpath_child (ojp ''Duration'') leg_elem;
          duration_elem = (if duration0 = []
                           then xpath_child (ojp ''Duration'') transfer_leg_elem
                           else duration0)
      in Some (mk_Leg (transfer_mode (xpath_child (ojp ''TransferType'') transfer_leg_elem))
                 (endpoint (xpath_child (ojp ''LegStart'') transfer_leg_elem))
                 (endpoint (xpath_child (ojp ''LegEnd'') transfer_leg_elem))
                 None None (leg_duration rt duration_elem) None None))"

definition parse_leg :: "runtime \<Rightarrow> element \<Rightarrow> Leg option" where
  \<comment> \<open>\<^verbatim>\<open>OJPParser._parse_leg\<close>.\<close>
  "parse_leg rt leg_elem =
     (case xpath_desc (ojp ''TimedLeg'') leg_elem of
        timed_leg # _ \<Rightarrow> parse_timed_leg rt timed_leg
      | [] \<Rightarrow>
          (case xpath_desc (ojp ''ContinuousLeg'') leg_elem of
             continuous_leg # _ \<Rightarrow> parse_continuous_leg rt continuous_leg
           | [] \<Rightarrow>
               (case xpath_child (ojp ''TransferLeg'') leg_elem of
                  transfer_leg # _ \<Rightarrow> parse_transfer_leg rt leg_elem transfer_leg
                | [] \<Rightarrow> None)))"

text \<open>
  What \<^verbatim>\<open>_parse_timed_leg\<close> reads for the mode of a timed leg: the text of the first
  \<^verbatim>\<open>PtMode\<close> of the first \<^verbatim>\<open>Service\<close>, lower-cased, and the texts of its first rail
  and bus submodes; \<open>None\<close> where the element or its text is missing or empty.
\<close>

definition primary_mode :: "element \<Rightarrow> string option" where
  "primary_mode leg_elem =
     (case xpath_desc (ojp ''Service'') leg_elem of
        [] \<Rightarrow> None
      | service # _ \<Rightarrow>
          map_option py_lower
            (present (first_text (xpath_desc_child (ojp ''Mode'') (ojp ''PtMode'') service))))"

definition rail_submode :: "element \<Rightarrow> string option" where
  "rail_submode leg_elem =
     (case xpath_desc (ojp ''Service'') leg_elem of
        [] \<Rightarrow> None
      | service # _ \<Rightarrow>
          present (first_text (xpath_desc_child (ojp ''Mode'') (siri ''RailSubmode'') service)))"

definition bus_submode :: "element \<Rightarrow> string option" where
  "bus_submode leg_elem =
     (case xpath_desc (ojp ''Service'') leg_elem of
        [] \<Rightarrow> None
      | service # _ \<Rightarrow>
          present (first_text (xpath_desc_child (ojp ''Mode'') (siri ''BusSubmode'') service)))"

definition mode_table :: "string option \<Rightarrow> string option \<Rightarrow> string option \<Rightarrow> string option" where
  \<comment> \<open>The normalization table in the words of the specification (section 4.3), with
      the one change that a rail leg without a submode keeps the label \<^verbatim>\<open>rail\<close>. The
      table says nothing (\<open>None\<close>) about a primary mode it does not list.\<close>
  "mode_table primary rail bus =
     (case primary of
        None \<Rightarrow> Some ''public_transport''
      | Some p \<Rightarrow>
          if p = ''rail'' then
            (case rail of
               None \<Rightarrow> Some ''rail''
             | Some s \<Rightarrow>
                 if s = ''regionalRail'' then Some ''regional_train''
                 else if s = ''suburbanRailway'' then Some ''s_bahn''
                 else if s = ''interregionalRail'' then Some ''intercity''
                 else if s = ''highSpeedRail'' then Some ''high_speed_rail''
                 else Some ''train'')
          else if p = ''bus'' then
            (case bus of
               None \<Rightarrow> Some ''bus''
             | Some s \<Rightarrow>
                 if s = ''localBus'' then Some ''bus''
                 else if s = ''expressBus'' then Some ''express_bus''
                 else if s = ''nightBus'' then Some ''night_bus''
                 else Some ''bus'')
          else if p = ''tram'' \<or> p = ''metro'' \<or> p = ''funicular'' then Some p
          else None)"

section \<open>Trip Assembler\<close>

fun first_departure :: "Leg list \<Rightarrow> datetime option" where
  \<comment> \<open>Lines 80 to 84: the loop stops at the first leg that has a departure time.\<close>
  "first_departure [] = None"
| "first_departure (leg # rest) =
     (case departure_time leg of
        Some t \<Rightarrow> Some t
      | None \<Rightarrow> first_departure rest)"

fun first_arrival :: "Leg list \<Rightarrow> datetime option" where
  \<comment> \<open>The loop of lines 88 to 91 over the legs it is given.\<close>
  "first_arrival [] = None"
| "first_arrival (leg # rest) =
     (case arrival_time leg of
        Some t \<Rightarrow> Some t
      | None \<Rightarrow> first_arrival rest)"

definition last_arrival :: "Leg list \<Rightarrow> datetime option" where
  \<comment> \<open>Lines 87 to 91: that loop runs over \<^verbatim>\<open>reversed(legs)\<close>.\<close>
  "last_arrival ls = first_arrival (rev ls)"

definition minutes_between :: "datetime \<Rightarrow> datetime \<Rightarrow> py_error + int" where
  \<comment> \<open>\<^verbatim>\<open>int((arrival - departure).total_seconds() / 60)\<close>.\<close>
  "minutes_between dep arr =
     (case datetime_sub arr dep of
        Inl e \<Rightarrow> Inl e
      | Inr td \<Rightarrow> Inr (whole_minutes td))"

definition own_times_duration :: "Leg \<Rightarrow> py_error + int" where
  \<comment> \<open>Lines 102 to 104; a leg without both times adds nothing.\<close>
  "own_times_duration leg =
     (case departure_time leg of
        None \<Rightarrow> Inr 0
      | Some dep \<Rightarrow>
          (case arrival_time leg of
             None \<Rightarrow> Inr 0
           | Some arr \<Rightarrow> minutes_between dep arr))"

definition leg_contribution :: "Leg \<Rightarrow> py_error + int" where
  \<comment> \<open>Lines 100 to 104: \<^verbatim>\<open>if leg.duration_minutes:\<close> is false for \<^verbatim>\<open>None\<close> and for 0.\<close>
  "leg_contribution leg =
     (case duration_minutes leg of
        None \<Rightarrow> own_times_duration leg
      | Some d \<Rightarrow> if d \<noteq> 0 then Inr d else own_times_duration leg)"

fun sum_leg_durations :: "int \<Rightarrow> Leg list \<Rightarrow> py_error + int" where
  \<comment> \<open>The loop of lines 99 to 104, from the running total.\<close>
  "sum_leg_durations acc [] = Inr acc"
| "sum_leg_durations acc (leg # rest) =
     (case leg_contribution leg of
        Inl e \<Rightarrow> Inl e
      | Inr d \<Rightarrow> sum_leg_durations (acc + d) rest)"

definition total_duration ::
  "Leg list \<Rightarrow> datetime option \<Rightarrow> datetime option \<Rightarrow> py_error + int" where
  \<comment> \<open>Lines 94 to 104.\<close>
  "total_duration ls dep arr =
     (case dep of
        None \<Rightarrow> sum_leg_durations 0 ls
      | Some d \<Rightarrow>
          (case arr of
             None \<Rightarrow> sum_leg_durations 0 ls
           | Some a \<Rightarrow> minutes_between d a))"

definition count_transfers :: "Leg list \<Rightarrow> int" where
  \<comment> \<open>Lines 107 and 108.\<close>
  "count_transfers ls =
     max 0 (int (length (filter (\<lambda>leg. mode leg \<notin> set [''walk'', ''walking'']) ls)) - 1)"

definition assemble_trip :: "Leg list \<Rightarrow> Trip option" where
  \<comment> \<open>Lines 75 to 127 of \<^verbatim>\<open>OJPParser._parse_trip\<close>, from the decoded legs on; every
      exception ends in \<^verbatim>\<open>except Exception: return None\<close>.\<close>
  "assemble_trip ls =
     (case ls of
        [] \<Rightarrow> None
      | first_leg # _ \<Rightarrow>
          (let dep = first_departure ls;
               arr = last_arrival ls
           in case total_duration ls dep arr of
                Inl e \<Rightarrow> None
              | Inr tot \<Rightarrow>
                  (let dep2 = (case dep of None \<Rightarrow> departure_time first_leg | Some t \<Rightarrow> Some t);
                       arr2 = (case arr of None \<Rightarrow> arrival_time (last ls) | Some t \<Rightarrow> Some t)
                   in case mk_Trip ls tot dep2 arr2 (count_transfers ls) of
                        Inl e \<Rightarrow> None
                      | Inr trip \<Rightarrow> Some trip)))"

definition decode_legs :: "runtime \<Rightarrow> element \<Rightarrow> Leg list" where
  \<comment> \<open>Lines 66 to 73 of \<^verbatim>\<open>OJPParser._parse_trip\<close>.\<close>
  "decode_legs rt trip_elem = List.map_filter (parse_leg rt) (xpath_desc (ojp ''Leg'') trip_elem)"

definition parse_trip :: "runtime \<Rightarrow> element \<Rightarrow> Trip option" where
  \<comment> \<open>\<^verbatim>\<open>OJPParser._parse_trip\<close>.\<close>
  "parse_trip rt trip_elem = assemble_trip (decode_legs rt trip_elem)"

section \<open>Document Parser\<close>

definition parse_trip_response :: "runtime \<Rightarrow> string \<Rightarrow> TripResponse" where
  \<comment> \<open>\<^verbatim>\<open>OJPParser.parse_trip_response\<close>.\<close>
  "parse_trip_response rt xml_content =
     (case fromstring rt xml_content of
        Inl msg \<Rightarrow>
          \<lparr>trip_success = False,
           trip_error_message = Some (''Failed to parse trip response: '' @ msg),
           trips = []\<rparr>
      | Inr doc \<Rightarrow>
          \<lparr>trip_success = True, trip_error_message = None,
           trips = List.map_filter (parse_trip rt) (xpath_all (ojp ''TripResult'') doc)\<rparr>)"

definition parse_location_response :: "runtime \<Rightarrow> string \<Rightarrow> LocationResponse" where
  \<comment> \<open>\<^verbatim>\<open>OJPParser.parse_location_response\<close>.\<close>
  "parse_location_response rt xml_content =
     (case fromstring rt xml_content of
        Inl msg \<Rightarrow>
          \<lparr>location_success = False,
           location_error_message = Some (''Failed to parse location response: '' @ msg),
           locations = []\<rparr>
      | Inr doc \<Rightarrow>
          \<lparr>location_success = True, location_error_message = None,
           locations = List.map_filter (parse_place_result rt)
                         (xpath_all (ojp ''PlaceResult'') doc)\<rparr>)"

section \<open>Example documents\<close>

text \<open>
  Concrete inputs for the closed theorems below. The stand-ins for the library read
  just what the examples hold: a time written \<^verbatim>\<open>HH:MM\<close>, the numbers \<^verbatim>\<open>0.5\<close> and \<^verbatim>\<open>1.5\<close>,
  and one document text.
\<close>

definition node :: "string \<Rightarrow> element list \<Rightarrow> element" where
  "node local cs = Element (ojp local) None cs"

definition leaf :: "string \<Rightarrow> string \<Rightarrow> element" where
  "leaf local t = Element (ojp local) (Some t) []"

definition clock :: "int option \<Rightarrow> int \<Rightarrow> int \<Rightarrow> int \<Rightarrow> datetime" where
  \<comment> \<open>The time \<open>h:m\<close> on day \<open>day\<close>, with the UTC offset \<open>tz\<close>.\<close>
  "clock tz day h m = \<lparr>utcoffset = tz, wallclock = ((day * 24 + h) * 60 + m) * 60000000\<rparr>"

definition example_dateutil_parse :: "string \<Rightarrow> datetime option" where
  "example_dateutil_parse s =
     (case s of
        [a, b, c, d, e] \<Rightarrow>
          if is_digit a \<and> is_digit b \<and> c = CHR '':'' \<and> is_digit d \<and> is_digit e
          then Some (clock None 0 (digit_val a * 10 + digit_val b)
                       (digit_val d * 10 + digit_val e))
          else None
      | _ \<Rightarrow> None)"

definition example_timed_leg :: "string \<Rightarrow> string \<Rightarrow> element list \<Rightarrow> element" where
  "example_timed_leg dep arr mode_elems =
     node ''Leg''
       [node ''TimedLeg''
          [node ''LegBoard'' [node ''ServiceDeparture'' [leaf ''TimetabledTime'' dep]],
           node ''LegAlight'' [node ''ServiceArrival'' [leaf ''TimetabledTime'' arr]],
           node ''Service'' [node ''Mode'' mode_elems]]]"

definition example_walk_leg :: element where
  "example_walk_leg =
     node ''Leg'' [node ''TransferLeg'' [leaf ''TransferType'' ''walk'', leaf ''Duration'' ''PT5M'']]"

definition example_walk_trip :: element where
  "example_walk_trip = node ''TripResult'' [node ''Trip'' [example_walk_leg]]"

definition example_bus_trip :: element where
  "example_bus_trip =
     node ''TripResult''
       [node ''Trip'' [example_timed_leg ''09:00'' ''09:20'' [leaf ''PtMode'' ''bus'']]]"

definition example_place :: "element list \<Rightarrow> element list \<Rightarrow> element" where
  "example_place place_fields result_fields =
     node ''PlaceResult'' (node ''Place'' place_fields # result_fields)"

definition example_doc :: element where
  "example_doc =
     node ''OJP''
       [example_bus_trip, example_walk_trip,
        example_place [node ''Name'' [leaf ''Text'' ''Bern'']] [leaf ''Probability'' ''0.5''],
        example_place [] []]"

definition example_runtime :: runtime where
  "example_runtime =
     \<lparr>max_str_digits = 4300,
      dateutil_parse = example_dateutil_parse,
      float_of_str = (\<lambda>s. if s = ''0.5'' then Some (Finite (1 / 2))
                          else if s = ''1.5'' then Some (Finite (3 / 2))
                          else None),
      fromstring = (\<lambda>s. if s = ''<OJP>...</OJP>'' then Inr example_doc
                        else Inl ''Start tag expected'')\<rparr>"

definition example_untimed_leg :: element where
  "example_untimed_leg = node ''Leg'' [node ''TimedLeg'' [node ''LegBoard'' [], node ''LegAlight'' []]]"

definition example_four_leg_trip :: element where
  \<comment> \<open>A timed leg without times, a bus 09:00 to 09:20, a walk of five minutes and a
      high-speed train 09:30 to 10:00.\<close>
  "example_four_leg_trip =
     node ''TripResult''
       [node ''Trip''
          [example_untimed_leg,
           example_timed_leg ''09:00'' ''09:20'' [leaf ''PtMode'' ''bus''],
           example_walk_leg,
           example_timed_leg ''09:30'' ''10:00''
             [leaf ''PtMode'' ''rail'',
              Element (siri ''RailSubmode'') (Some ''highSpeedRail'') []]]]"

definition example_late_trip :: element where
  \<comment> \<open>One bus leg that leaves at 10:00 and arrives at 09:00.\<close>
  "example_late_trip =
     node ''TripResult''
       [node ''Trip'' [example_timed_leg ''10:00'' ''09:00'' [leaf ''PtMode'' ''bus'']]]"

definition example_rail_leg :: "element list \<Rightarrow> element" where
  \<comment> \<open>A rail leg 09:00 to 09:20 with the given submode elements.\<close>
  "example_rail_leg submodes =
     example_timed_leg ''09:00'' ''09:20'' (leaf ''PtMode'' ''rail'' # submodes)"

definition example_bern_place :: "string \<Rightarrow> element" where
  \<comment> \<open>A place named Bern whose latitude is not a number, with the given text in its
      probability field.\<close>
  "example_bern_place prob =
     example_place
       [node ''Name'' [leaf ''Text'' ''Bern''],
        node ''GeoPosition''
          [Element (siri ''Longitude'') (Some ''0.5'') [],
           Element (siri ''Latitude'') (Some ''north'') []]]
       [leaf ''Probability'' prob]"

section \<open>Evaluation rules\<close>

lemmas example_defs = node_def leaf_def clock_def example_dateutil_parse_def
  example_timed_leg_def example_walk_leg_def example_walk_trip_def example_bus_trip_def
  example_place_def example_doc_def example_runtime_def example_untimed_leg_def
  example_four_leg_trip_def example_late_trip_def

lemmas xpath_defs = xpath_child_def xpath_child2_def xpath_child3_def xpath_desc_def
  xpath_desc_child_def xpath_all_def first_text_def ojp_def siri_def

lemmas leg_defs = parse_leg_def parse_timed_leg_def parse_continuous_leg_def
  parse_transfer_leg_def transfer_mode_def leg_duration_def endpoint_def service_time_def
  service_mode_def present_def service_line_name_def parse_leg_board_alight_def
  parse_transfer_location_def mk_Leg_def mk_Location_def or_unknown_def
  unknown_location_def parse_datetime_def truthy_def py_lower_def py_lower_char_def

lemmas duration_defs = parse_iso_duration_def startswith_def py_int_def py_strip_def
  py_isspace_def is_digit_def digit_val_def py_replace_empty_def

lemmas trip_defs = assemble_trip_def last_arrival_def total_duration_def
  minutes_between_def datetime_sub_def whole_minutes_def count_transfers_def mk_Trip_def
  leg_contribution_def own_times_duration_def

lemmas place_defs = parse_place_result_def place_name_def place_coordinates_def place_probability_def
  py_float_def mk_Coordinates_def float_between_def mk_Location_def truthy_def

section \<open>Duration Decoder: the contract\<close>

lemma digit_not_space: "is_digit c \<Longrightarrow> \<not> py_isspace c"
  by (auto simp add: is_digit_def py_isspace_def Let_def)

lemma digit_not_sign: "is_digit c \<Longrightarrow> c \<noteq> CHR ''-'' \<and> c \<noteq> CHR ''+''"
  by (auto simp add: is_digit_def)

lemma py_strip_id:
  assumes "s \<noteq> []" "\<not> py_isspace (hd s)" "\<not> py_isspace (last s)"
  shows "py_strip s = s"
proof -
  have a: "dropWhile py_isspace s = s" using assms by (simp add: dropWhile_eq_self_iff)
  have "dropWhile py_isspace (rev s) = rev s"
    using assms by (simp add: dropWhile_eq_self_iff hd_rev)
  with a show ?thesis by (simp add: py_strip_def)
qed

lemma int_body_digits:
  "list_all is_digit ds \<Longrightarrow> ds \<noteq> [] \<or> prev \<Longrightarrow>
     int_body prev acc ds = Some (foldl (\<lambda>a c. a * 10 + digit_val c) acc ds)"
  by (induction ds arbitrary: prev acc) auto

lemma py_int_digits:
  assumes "is_digits ds" and "k = 0 \<or> length ds \<le> k"
  shows "py_int k ds = Some (decimal ds)"
proof -
  from assms(1) obtain c cs where ds: "ds = c # cs" and all: "list_all is_digit ds"
    by (cases ds) (auto simp add: is_digits_def)
  have "is_digit (hd ds)" "is_digit (last ds)"
    using ds all by (auto simp add: list_all_iff)
  then have st: "py_strip ds = ds" using ds by (intro py_strip_id) (auto simp add: digit_not_space)
  have c: "c \<noteq> CHR ''-''" "c \<noteq> CHR ''+''" using ds all digit_not_sign by auto
  have f: "filter is_digit ds = ds" using all by (simp add: filter_id_conv list_all_iff)
  have b: "int_body False 0 ds = Some (decimal ds)"
    unfolding decimal_def using all ds by (intro int_body_digits) auto
  show ?thesis
    unfolding py_int_def st using assms(2) c b f ds by (auto simp add: Let_def)
qed

lemma int_body_chars:
  "int_body prev acc b = Some v \<Longrightarrow> c \<in> set b \<Longrightarrow> is_digit c \<or> c = CHR ''_''"
  by (induction b arbitrary: prev acc) (auto split: if_splits)

lemma int_body_nonempty: "int_body False acc b = Some v \<Longrightarrow> b \<noteq> []"
  by (cases b) auto

lemma py_strip_chars: "c \<in> set s \<Longrightarrow> c \<in> set (py_strip s) \<or> py_isspace c"
proof -
  assume c: "c \<in> set s"
  let ?u = "dropWhile py_isspace s"
  have "s = takeWhile py_isspace s @ ?u" by simp
  then have "c \<in> set (takeWhile py_isspace s) \<or> c \<in> set ?u" using c
    by (metis Un_iff set_append)
  then have 1: "py_isspace c \<or> c \<in> set ?u" using set_takeWhileD by fastforce
  have "rev ?u = takeWhile py_isspace (rev ?u) @ dropWhile py_isspace (rev ?u)" by simp
  then have "set ?u = set (takeWhile py_isspace (rev ?u)) \<union> set (dropWhile py_isspace (rev ?u))"
    by (metis set_append set_rev)
  then have 2: "c \<in> set ?u \<Longrightarrow> py_isspace c \<or> c \<in> set (py_strip s)"
    using set_takeWhileD by (fastforce simp add: py_strip_def)
  from 1 2 show ?thesis by blast
qed

lemma py_int_chars:
  assumes "py_int k s = Some v" and "c \<in> set s"
  shows "py_isspace c \<or> is_digit c \<or> c = CHR ''_'' \<or> c = CHR ''-'' \<or> c = CHR ''+''"
proof -
  let ?t = "py_strip s"
  let ?b = "case ?t of [] \<Rightarrow> [] | c # cs \<Rightarrow> if c = CHR ''-'' \<or> c = CHR ''+'' then cs else ?t"
  from assms(1) obtain w where w: "int_body False 0 ?b = Some w"
    by (auto simp add: py_int_def Let_def split: if_splits option.splits)
  have tb: "\<And>x. x \<in> set ?t \<Longrightarrow> x \<in> set ?b \<or> x = CHR ''-'' \<or> x = CHR ''+''"
    by (cases ?t) (auto split: if_splits)
  from assms(2) py_strip_chars have "c \<in> set ?t \<or> py_isspace c" by blast
  then show ?thesis using tb int_body_chars[OF w] by blast
qed

lemma py_int_nonempty: "py_int k s = Some v \<Longrightarrow> s \<noteq> []"
  by (auto simp add: py_int_def py_strip_def Let_def split: if_splits option.splits)

lemma py_int_no_designator:
  assumes "py_int k s = Some v"
  shows "CHR ''H'' \<notin> set s \<and> CHR ''M'' \<notin> set s"
proof -
  have "\<not> (py_isspace (CHR ''H'') \<or> is_digit (CHR ''H'') \<or> CHR ''H'' = CHR ''_'' \<or> CHR ''H'' = CHR ''-'' \<or> CHR ''H'' = CHR ''+'')"
    by (simp add: py_isspace_def is_digit_def)
  moreover have "\<not> (py_isspace (CHR ''M'') \<or> is_digit (CHR ''M'') \<or> CHR ''M'' = CHR ''_'' \<or> CHR ''M'' = CHR ''-'' \<or> CHR ''M'' = CHR ''+'')"
    by (simp add: py_isspace_def is_digit_def)
  ultimately show ?thesis using py_int_chars[OF assms] by blast
qed

lemma py_split_no_sep: "sep \<notin> set s \<Longrightarrow> py_split sep s = [s]"
  by (induction s) auto

lemma py_split_append: "sep \<notin> set h \<Longrightarrow> py_split sep (h @ sep # r) = h # py_split sep r"
  by (induction h) auto

lemma py_split_nonempty: "py_split sep s \<noteq> []"
  by (induction s) (auto split: list.splits)

lemma hours_minutes:
  assumes h: "py_int k h = Some a" and m: "py_int k m = Some b"
  shows "parse_iso_duration k (''PT'' @ h @ ''H'' @ m @ ''M'') = Some (a * 60 + b)"
proof -
  from py_int_no_designator[OF h] have hh: "CHR ''H'' \<notin> set h" by simp
  from py_int_no_designator[OF m] have mh: "CHR ''H'' \<notin> set m" and mm: "CHR ''M'' \<notin> set m"
    by simp_all
  have sp: "py_split (CHR ''H'') (h @ ''H'' @ m @ ''M'') = [h, m @ ''M'']"
    using hh mh py_split_append[of "CHR ''H''" h "m @ ''M''"] by (simp add: py_split_no_sep)
  have f: "py_replace_empty (CHR ''M'') (m @ ''M'') = m"
    using mm by (auto simp add: py_replace_empty_def filter_id_conv)
  have ne: "m \<noteq> []" using m by (rule py_int_nonempty)
  show ?thesis
    using sp f ne h m by (simp add: parse_iso_duration_def startswith_def Let_def)
qed

lemma hours_only:
  assumes h: "py_int k h = Some a"
  shows "parse_iso_duration k (''PT'' @ h @ ''H'') = Some (a * 60)"
proof -
  from py_int_no_designator[OF h] have hh: "CHR ''H'' \<notin> set h" by simp
  have sp: "py_split (CHR ''H'') (h @ ''H'') = [h, []]"
    using hh py_split_append[of "CHR ''H''" h "[]"] by simp
  show ?thesis
    using sp h by (simp add: parse_iso_duration_def startswith_def Let_def)
qed

lemma minutes_only:
  assumes m: "py_int k m = Some b"
  shows "parse_iso_duration k (''PT'' @ m @ ''M'') = Some b"
proof -
  from py_int_no_designator[OF m] have mh: "CHR ''H'' \<notin> set m" and mm: "CHR ''M'' \<notin> set m"
    by simp_all
  have f: "py_replace_empty (CHR ''M'') (m @ ''M'') = m"
    using mm by (auto simp add: py_replace_empty_def filter_id_conv)
  have ne: "m \<noteq> []" using m by (rule py_int_nonempty)
  show ?thesis
    using f ne m mh by (simp add: parse_iso_duration_def startswith_def Let_def)
qed

lemma no_PT: "\<not> startswith s ''PT'' \<Longrightarrow> parse_iso_duration k s = None"
  by (simp add: parse_iso_duration_def)

lemma bad_hours:
  assumes "py_int k h = None" and hh: "CHR ''H'' \<notin> set h"
  shows "parse_iso_duration k (''PT'' @ h @ ''H'' @ r) = None"
proof -
  have sp: "py_split (CHR ''H'') (h @ ''H'' @ r) = h # py_split (CHR ''H'') r"
    using hh py_split_append[of "CHR ''H''" h r] by simp
  show ?thesis
    using sp assms(1) by (simp add: parse_iso_duration_def startswith_def Let_def)
qed

lemma bad_minutes_only:
  assumes "py_int k m = None" and "m \<noteq> []" and mh: "CHR ''H'' \<notin> set m" and mm: "CHR ''M'' \<notin> set m"
  shows "parse_iso_duration k (''PT'' @ m @ ''M'') = None"
proof -
  have f: "py_replace_empty (CHR ''M'') (m @ ''M'') = m"
    using mm by (auto simp add: py_replace_empty_def filter_id_conv)
  show ?thesis
    using f assms(1,2) mh by (simp add: parse_iso_duration_def startswith_def Let_def)
qed

lemma bad_minutes_after_hours:
  assumes "py_int k m = None" and "m \<noteq> []" and mh: "CHR ''H'' \<notin> set m" and mm: "CHR ''M'' \<notin> set m"
    and hh: "CHR ''H'' \<notin> set h"
  shows "parse_iso_duration k (''PT'' @ h @ ''H'' @ m @ ''M'') = None"
proof -
  have sp: "py_split (CHR ''H'') (h @ ''H'' @ m @ ''M'') = [h, m @ ''M'']"
    using hh mh py_split_append[of "CHR ''H''" h "m @ ''M''"] by (simp add: py_split_no_sep)
  have f: "py_replace_empty (CHR ''M'') (m @ ''M'') = m"
    using mm by (auto simp add: py_replace_empty_def filter_id_conv)
  show ?thesis
  proof (cases "py_int k h")
    case None
    then show ?thesis using hh bad_hours[of k h "m @ ''M''"] by simp
  next
    case (Some a)
    with sp f assms(1,2) show ?thesis
      by (simp add: parse_iso_duration_def startswith_def Let_def)
  qed
qed

lemma empty_minutes:
  "parse_iso_duration k ''PTM'' = Some 0"
  "py_int k h = Some a \<Longrightarrow> parse_iso_duration k (''PT'' @ h @ ''HM'') = Some (a * 60)"
proof -
  show "parse_iso_duration k ''PTM'' = Some 0"
    by (simp add: parse_iso_duration_def startswith_def py_replace_empty_def)
next
  assume h: "py_int k h = Some a"
  from py_int_no_designator[OF h] have hh: "CHR ''H'' \<notin> set h" by simp
  have sp: "py_split (CHR ''H'') (h @ ''HM'') = [h, ''M'']"
    using hh py_split_append[of "CHR ''H''" h "''M''"] by simp
  show "parse_iso_duration k (''PT'' @ h @ ''HM'') = Some (a * 60)"
    using sp h
    by (simp add: parse_iso_duration_def startswith_def Let_def py_replace_empty_def)
qed

text \<open>
  Claim C2, as stated: a string that does not begin with \<^verbatim>\<open>PT\<close>, or whose hour or
  minute component is not an integer, has no duration. The empty text is not an
  integer (\<^verbatim>\<open>int('')\<close> raises), and an empty hour component gives no duration; but
  the guard at line 396 skips an empty minute component, so \<^verbatim>\<open>PTM\<close> is 0 minutes and
  \<^verbatim>\<open>PT2HM\<close> is 120.
\<close>

theorem empty_minute_component_has_a_duration:
  "py_int 4300 [] = None
   \<and> parse_iso_duration 4300 ''PTH'' = None
   \<and> parse_iso_duration 4300 ''PTM'' = Some 0
   \<and> parse_iso_duration 4300 ''PT2HM'' = Some 120"
  by (simp add: duration_defs)

text \<open>
  Claim C2, amended. An integer is a text that \<^verbatim>\<open>int()\<close> accepts (\<open>py_int\<close>); every
  string of decimal digits within the interpreter's digit limit is one, and its value
  is the number it writes. For integer components \<open>h\<close> and \<open>m\<close> the strings
  \<^verbatim>\<open>PT<h>H<m>M\<close>, \<^verbatim>\<open>PT<h>H\<close> and \<^verbatim>\<open>PT<m>M\<close> decode to hours * 60 + minutes. A string
  that does not begin with \<^verbatim>\<open>PT\<close>, or whose hour component (the text before the first
  \<^verbatim>\<open>H\<close>) is not an integer, or whose minute component is not empty and not an integer,
  has no duration. An empty minute component counts as 0 minutes.
\<close>

theorem duration_decoder_contract:
  "(py_int k h = Some a \<and> py_int k m = Some b \<longrightarrow>
        parse_iso_duration k (''PT'' @ h @ ''H'' @ m @ ''M'') = Some (a * 60 + b)
      \<and> parse_iso_duration k (''PT'' @ h @ ''H'') = Some (a * 60)
      \<and> parse_iso_duration k (''PT'' @ m @ ''M'') = Some b)
   \<and> (is_digits ds \<and> (k = 0 \<or> length ds \<le> k) \<longrightarrow> py_int k ds = Some (decimal ds))
   \<and> (\<not> startswith s ''PT'' \<longrightarrow> parse_iso_duration k s = None)
   \<and> (py_int k hx = None \<and> CHR ''H'' \<notin> set hx \<longrightarrow>
        parse_iso_duration k (''PT'' @ hx @ ''H'' @ r) = None)
   \<and> (py_int k mx = None \<and> mx \<noteq> [] \<and> CHR ''H'' \<notin> set mx \<and> CHR ''M'' \<notin> set mx \<longrightarrow>
        parse_iso_duration k (''PT'' @ mx @ ''M'') = None
      \<and> (CHR ''H'' \<notin> set hy \<longrightarrow>
           parse_iso_duration k (''PT'' @ hy @ ''H'' @ mx @ ''M'') = None))
   \<and> parse_iso_duration k ''PTM'' = Some 0
   \<and> (py_int k h = Some a \<longrightarrow> parse_iso_duration k (''PT'' @ h @ ''HM'') = Some (a * 60))"
  using hours_minutes[of k h a m b] hours_only[of k h a] minutes_only[of k m b]
    py_int_digits[of ds k] no_PT[of s k] bad_hours[of k hx r]
    bad_minutes_only[of k mx] bad_minutes_after_hours[of k mx hy]
    empty_minutes(1)[of k] empty_minutes(2)[of k h a]
  by blast

theorem duration_decoder_contract_witness:
  "parse_iso_duration 4300 ''PT1H30M'' = Some 90
   \<and> parse_iso_duration 4300 ''PT2H'' = Some 120
   \<and> parse_iso_duration 4300 ''PT6M'' = Some 6
   \<and> is_digits ''30'' \<and> py_int 4300 ''30'' = Some 30
   \<and> parse_iso_duration 4300 ''P1D'' = None
   \<and> py_int 4300 ''1.5'' = None \<and> parse_iso_duration 4300 ''PT1.5H30M'' = None
   \<and> py_int 4300 ''30.5'' = None \<and> parse_iso_duration 4300 ''PT30.5M'' = None
   \<and> parse_iso_duration 4300 ''PT1H30.5M'' = None
   \<and> parse_iso_duration 4300 ''PT1HM'' = Some 60"
proof -
  have i: "py_int 4300 ''1'' = Some 1" "py_int 4300 ''2'' = Some 2"
    "py_int 4300 ''6'' = Some 6" "py_int 4300 ''1.5'' = None" "py_int 4300 ''30.5'' = None"
    by (simp_all add: py_int_def py_strip_def py_isspace_def is_digit_def digit_val_def)
  have d: "is_digits ''30''" "decimal ''30'' = 30"
    by (simp_all add: is_digits_def decimal_def is_digit_def digit_val_def)
  have s: "\<not> startswith ''P1D'' ''PT''" by (simp add: startswith_def)
  have "py_int 4300 ''30'' = Some 30"
    using duration_decoder_contract[of 4300 "''1''" 1 "''30''" 30 "''30''"] d by simp
  then have 1: "parse_iso_duration 4300 ''PT1H30M'' = Some 90
     \<and> parse_iso_duration 4300 ''P1D'' = None
     \<and> parse_iso_duration 4300 ''PT1.5H30M'' = None
     \<and> parse_iso_duration 4300 ''PT30.5M'' = None
     \<and> parse_iso_duration 4300 ''PT1H30.5M'' = None
     \<and> parse_iso_duration 4300 ''PT1HM'' = Some 60
     \<and> py_int 4300 ''30'' = Some 30"
    using duration_decoder_contract[of 4300 "''1''" 1 "''30''" 30 "''30''" "''P1D''" "''1.5''"
        "''30M''" "''30.5''" "''1''"] i d s
    by simp
  have 2: "parse_iso_duration 4300 ''PT2H'' = Some 120
     \<and> parse_iso_duration 4300 ''PT6M'' = Some 6"
    using duration_decoder_contract[of 4300 "''2''" 2 "''6''" 6] i by simp
  from 1 2 i d show ?thesis by simp
qed

text \<open>
  Claim C10. A string that begins with \<^verbatim>\<open>PT\<close> and has neither an \<^verbatim>\<open>H\<close> nor an
  \<^verbatim>\<open>M\<close> after it (\<^verbatim>\<open>PT\<close> alone, \<^verbatim>\<open>PT30S\<close>) decodes to a duration of 0 minutes, not to
  "no duration".
\<close>

theorem duration_without_designator_is_zero:
  "startswith s ''PT'' \<Longrightarrow> CHR ''H'' \<notin> set (drop 2 s) \<Longrightarrow> CHR ''M'' \<notin> set (drop 2 s) \<Longrightarrow>
     parse_iso_duration k s = Some 0"
  by (simp add: parse_iso_duration_def)

theorem duration_without_designator_is_zero_witness:
  "startswith ''PT30S'' ''PT'' \<and> CHR ''H'' \<notin> set (drop 2 ''PT30S'')
   \<and> CHR ''M'' \<notin> set (drop 2 ''PT30S'')
   \<and> parse_iso_duration 4300 ''PT30S'' = Some 0 \<and> parse_iso_duration 4300 ''PT'' = Some 0"
  using duration_without_designator_is_zero[of "''PT30S''" 4300]
    duration_without_designator_is_zero[of "''PT''" 4300]
  by (simp add: startswith_def)

section \<open>Location Extractor: search results\<close>

text \<open>
  Claim C9, as stated: a place fragment with a place sub-element always gives a
  Location, a missing name becoming \<^verbatim>\<open>Unknown\<close>. It does not: \<^verbatim>\<open>_parse_place_result\<close>
  returns \<^verbatim>\<open>None\<close> at line 471 when neither name field has a text, as for the
  fragment below, which holds an empty place sub-element.
\<close>

theorem nameless_place_is_dropped:
  "xpath_child (ojp ''Place'') (example_place [] []) = [node ''Place'' []]
   \<and> parse_place_result example_runtime (example_place [] []) = None"
  by (simp add: example_defs xpath_defs place_defs)

text \<open>
  A probability outside [0, 1] is a number, so line 500 keeps it, and the \<^verbatim>\<open>Location\<close>
  constructor then refuses it: the fragment is dropped. (The coordinates are built inside
  their \<^verbatim>\<open>try\<close>; the probability is only converted there.)
\<close>

lemma out_of_range_probability_drops_place:
  "parse_place_result example_runtime (example_bern_place ''1.5'') = None"
  by (simp add: example_bern_place_def example_defs xpath_defs place_defs)

text \<open>
  Claim C9, amended. A place fragment with a place sub-element that has a name (in the
  name field or in the stop place's) gives a Location with that name, provided its
  probability field is missing, is not a number, or is a number in [0, 1]. Every other
  field degrades by itself: a missing or non-numeric probability, a missing identifier
  and missing, non-numeric or out-of-range coordinates are absent in the Location.
\<close>

theorem named_place_is_produced:
  assumes "xpath_child (ojp ''Place'') place_elem = place # others"
    and "place_name place = Some nm" and "nm \<noteq> []"
    and "xpath_child (ojp ''Probability'') place_elem = []
       \<or> (\<exists>p ps e. xpath_child (ojp ''Probability'') place_elem = p # ps
             \<and> py_float rt (elem_text p) = Inl e)
       \<or> (\<exists>p ps v. xpath_child (ojp ''Probability'') place_elem = p # ps
             \<and> py_float rt (elem_text p) = Inr v \<and> float_between 0 1 v)"
  shows "\<exists>l. parse_place_result rt place_elem = Some l \<and> name l = nm
     \<and> location_type l = Stop
     \<and> location_id l
         = first_text (xpath_child2 (ojp ''StopPlace'') (ojp ''StopPlaceRef'') place)
     \<and> coordinates l = place_coordinates rt place
     \<and> probability l = place_probability rt place_elem
     \<and> (xpath_child (ojp ''Probability'') place_elem = [] \<longrightarrow> probability l = None)
     \<and> (\<forall>p ps e. xpath_child (ojp ''Probability'') place_elem = p # ps
              \<and> py_float rt (elem_text p) = Inl e
            \<longrightarrow> probability l = None)
     \<and> (xpath_child2 (ojp ''StopPlace'') (ojp ''StopPlaceRef'') place = []
            \<longrightarrow> location_id l = None)
     \<and> (xpath_child (ojp ''GeoPosition'') place = [] \<longrightarrow> coordinates l = None)
     \<and> (\<forall>geo gs e. xpath_child (ojp ''GeoPosition'') place = geo # gs
              \<and> (py_float rt (first_text (xpath_child (siri ''Longitude'') geo)) = Inl e
                 \<or> py_float rt (first_text (xpath_child (siri ''Latitude'') geo)) = Inl e)
            \<longrightarrow> coordinates l = None)
     \<and> (\<forall>geo gs lon lat. xpath_child (ojp ''GeoPosition'') place = geo # gs
              \<and> py_float rt (first_text (xpath_child (siri ''Longitude'') geo)) = Inr lon
              \<and> py_float rt (first_text (xpath_child (siri ''Latitude'') geo)) = Inr lat
              \<and> (\<not> float_between (-180) 180 lon \<or> \<not> float_between (-90) 90 lat)
            \<longrightarrow> coordinates l = None)"
proof -
  have t: "truthy (place_name place)" using assms(2,3) by (simp add: truthy_def)
  have "place_probability rt place_elem = None
      \<or> (\<exists>v. place_probability rt place_elem = Some v \<and> float_between 0 1 v)"
    using assms(4) by (auto simp add: place_probability_def)
  then obtain l where l:
    "mk_Location (first_text (xpath_child2 (ojp ''StopPlace'') (ojp ''StopPlaceRef'') place))
       (Some nm) (place_coordinates rt place) (place_probability rt place_elem) = Inr l"
    by (auto simp add: mk_Location_def)
  then have r: "parse_place_result rt place_elem = Some l"
    using assms(1,2) t by (simp add: parse_place_result_def)
  have f: "name l = nm \<and> location_type l = Stop
     \<and> location_id l
         = first_text (xpath_child2 (ojp ''StopPlace'') (ojp ''StopPlaceRef'') place)
     \<and> coordinates l = place_coordinates rt place
     \<and> probability l = place_probability rt place_elem"
    using l by (auto simp add: mk_Location_def split: option.splits if_splits)
  have p1: "xpath_child (ojp ''Probability'') place_elem = [] \<longrightarrow> probability l = None"
    using f by (simp add: place_probability_def)
  have p2: "\<forall>p ps e. xpath_child (ojp ''Probability'') place_elem = p # ps
              \<and> py_float rt (elem_text p) = Inl e
            \<longrightarrow> probability l = None"
    using f by (simp add: place_probability_def)
  have i1: "xpath_child2 (ojp ''StopPlace'') (ojp ''StopPlaceRef'') place = []
            \<longrightarrow> location_id l = None"
    using f by (simp add: first_text_def)
  have c1: "xpath_child (ojp ''GeoPosition'') place = [] \<longrightarrow> coordinates l = None"
    using f by (simp add: place_coordinates_def)
  have c2: "\<forall>geo gs e. xpath_child (ojp ''GeoPosition'') place = geo # gs
              \<and> (py_float rt (first_text (xpath_child (siri ''Longitude'') geo)) = Inl e
                 \<or> py_float rt (first_text (xpath_child (siri ''Latitude'') geo)) = Inl e)
            \<longrightarrow> coordinates l = None"
    using f by (auto simp add: place_coordinates_def Let_def split: sum.splits)
  have c3: "\<forall>geo gs lon lat. xpath_child (ojp ''GeoPosition'') place = geo # gs
              \<and> py_float rt (first_text (xpath_child (siri ''Longitude'') geo)) = Inr lon
              \<and> py_float rt (first_text (xpath_child (siri ''Latitude'') geo)) = Inr lat
              \<and> (\<not> float_between (-180) 180 lon \<or> \<not> float_between (-90) 90 lat)
            \<longrightarrow> coordinates l = None"
    using f
    by (auto simp add: place_coordinates_def mk_Coordinates_def Let_def split: sum.splits)
  from r f p1 p2 i1 c1 c2 c3 show ?thesis by blast
qed

theorem named_place_is_produced_witness:
  "place_name (node ''Place''
       [node ''Name'' [leaf ''Text'' ''Bern''],
        node ''GeoPosition''
          [Element (siri ''Longitude'') (Some ''0.5'') [],
           Element (siri ''Latitude'') (Some ''north'') []]]) = Some ''Bern''
   \<and> py_float example_runtime (Some ''high'') = Inl ValueError
   \<and> parse_place_result example_runtime (example_bern_place ''high'')
       = Some \<lparr>location_id = None, name = ''Bern'', coordinates = None,
                location_type = Stop, probability = None\<rparr>"
proof -
  let ?place = "node ''Place''
       [node ''Name'' [leaf ''Text'' ''Bern''],
        node ''GeoPosition''
          [Element (siri ''Longitude'') (Some ''0.5'') [],
           Element (siri ''Latitude'') (Some ''north'') []]]"
  have a: "xpath_child (ojp ''Place'') (example_bern_place ''high'')
             = ?place # []"
    by (simp add: example_bern_place_def example_defs xpath_defs)
  have n: "place_name ?place = Some ''Bern''"
    by (simp add: example_defs xpath_defs place_name_def truthy_def)
  have ne: "''Bern'' \<noteq> []" by simp
  have fl: "py_float example_runtime (Some ''high'') = Inl ValueError"
    by (simp add: py_float_def example_runtime_def)
  have pr: "xpath_child (ojp ''Probability'') (example_bern_place ''high'')
              = leaf ''Probability'' ''high'' # []"
    by (simp add: example_bern_place_def example_defs xpath_defs)
  have p: "xpath_child (ojp ''Probability'') (example_bern_place ''high'') = []
       \<or> (\<exists>p ps e. xpath_child (ojp ''Probability'') (example_bern_place ''high'') = p # ps
             \<and> py_float example_runtime (elem_text p) = Inl e)
       \<or> (\<exists>p ps v. xpath_child (ojp ''Probability'') (example_bern_place ''high'') = p # ps
             \<and> py_float example_runtime (elem_text p) = Inr v \<and> float_between 0 1 v)"
    using pr fl by (simp add: leaf_def)
  have geo: "xpath_child (ojp ''GeoPosition'') ?place
               = node ''GeoPosition''
                   [Element (siri ''Longitude'') (Some ''0.5'') [],
                    Element (siri ''Latitude'') (Some ''north'') []] # []"
    by (simp add: example_defs xpath_defs)
  have lat: "py_float example_runtime
               (first_text (xpath_child (siri ''Latitude'')
                  (node ''GeoPosition''
                     [Element (siri ''Longitude'') (Some ''0.5'') [],
                      Element (siri ''Latitude'') (Some ''north'') []]))) = Inl ValueError"
    by (simp add: example_defs xpath_defs py_float_def)
  have ref: "xpath_child2 (ojp ''StopPlace'') (ojp ''StopPlaceRef'') ?place = []"
    by (simp add: example_defs xpath_defs)
  from named_place_is_produced[OF a n ne p]
  obtain l where l: "parse_place_result example_runtime (example_bern_place ''high'') = Some l"
    and f: "name l = ''Bern''" "location_type l = Stop" "probability l = None"
      "location_id l = None" "coordinates l = None"
    using pr fl geo lat ref by (fastforce simp add: leaf_def)
  from f have "l = \<lparr>location_id = None, name = ''Bern'', coordinates = None,
                location_type = Stop, probability = None\<rparr>"
    by (cases l) simp
  with l n fl show ?thesis by simp
qed

section \<open>Leg Decoder: mode normalization\<close>

text \<open>
  Claim C3, as stated: the mode of a timed leg follows the table, in which a rail leg
  with any other or with no submode is a \<^verbatim>\<open>train\<close>. A rail leg without a submode
  element keeps the lower-cased primary mode instead: its label is \<^verbatim>\<open>rail\<close>.
\<close>

theorem rail_without_submode_is_rail:
  "map_option mode (parse_leg example_runtime (example_rail_leg [])) = Some ''rail''"
  by (simp add: example_rail_leg_def example_defs xpath_defs leg_defs is_digit_def
        digit_val_def)

text \<open>
  The table's \<^verbatim>\<open>cableCar\<close> row is never reached either: line 253 compares the
  lower-cased mode with \<^verbatim>\<open>"cableCar"\<close>, so the label is the lower-cased text.
\<close>

lemma py_lower_cableCar: "py_lower ''cableCar'' = ''cablecar''"
  by code_simp

lemma cable_car_is_not_normalized:
  "service_mode (node ''Service'' [node ''Mode'' [leaf ''PtMode'' ''cableCar'']]) = ''cablecar''"
  by (simp add: service_mode_def present_def truthy_def node_def leaf_def xpath_defs
        py_lower_cableCar)

lemma service_mode_table:
  assumes "mode_table
      (map_option py_lower (present (first_text (xpath_desc_child (ojp ''Mode'') (ojp ''PtMode'') service))))
      (present (first_text (xpath_desc_child (ojp ''Mode'') (siri ''RailSubmode'') service)))
      (present (first_text (xpath_desc_child (ojp ''Mode'') (siri ''BusSubmode'') service))) = Some m"
  shows "service_mode service = m"
proof (cases "present (first_text (xpath_desc_child (ojp ''Mode'') (ojp ''PtMode'') service))")
  case None
  with assms show ?thesis by (simp add: service_mode_def mode_table_def)
next
  case (Some pt)
  note pt = this
  show ?thesis
  proof (cases "py_lower pt = ''rail''")
    case True
    show ?thesis
    proof (cases "present (first_text (xpath_desc_child (ojp ''Mode'') (siri ''RailSubmode'') service))")
      case None
      with assms pt True show ?thesis by (simp add: service_mode_def mode_table_def)
    next
      case (Some s)
      with assms pt True have "m = rail_mode s"
        unfolding mode_table_def rail_mode_def by (simp split: if_splits)
      with pt True Some show ?thesis by (simp add: service_mode_def)
    qed
  next
    case False
    note nr = this
    show ?thesis
    proof (cases "py_lower pt = ''bus''")
      case True
      show ?thesis
      proof (cases "present (first_text (xpath_desc_child (ojp ''Mode'') (siri ''BusSubmode'') service))")
        case None
        with assms pt True nr show ?thesis by (simp add: service_mode_def mode_table_def)
      next
        case (Some s)
        with assms pt True nr have "m = bus_mode s"
          unfolding mode_table_def bus_mode_def by (simp split: if_splits)
        with pt True Some nr show ?thesis by (simp add: service_mode_def)
      qed
    next
      case False
      with assms pt nr have m: "py_lower pt = m" and "m = ''tram'' \<or> m = ''metro'' \<or> m = ''funicular''"
        unfolding mode_table_def by (simp_all split: if_splits)
      then show ?thesis using pt by (auto simp add: service_mode_def)
    qed
  qed
qed

text \<open>
  Claim C3, amended. A timed leg with a boarding and an alighting point decodes, and
  its mode follows \<open>mode_table\<close> on the lower-cased primary mode: \<^verbatim>\<open>rail\<close> with
  \<^verbatim>\<open>regionalRail\<close> gives \<^verbatim>\<open>regional_train\<close>, with \<^verbatim>\<open>suburbanRailway\<close> \<^verbatim>\<open>s_bahn\<close>, with
  \<^verbatim>\<open>interregionalRail\<close> \<^verbatim>\<open>intercity\<close>, with \<^verbatim>\<open>highSpeedRail\<close> \<^verbatim>\<open>high_speed_rail\<close>, with
  any other submode \<^verbatim>\<open>train\<close> and without one \<^verbatim>\<open>rail\<close>; \<^verbatim>\<open>bus\<close> with \<^verbatim>\<open>expressBus\<close>
  gives \<^verbatim>\<open>express_bus\<close>, with \<^verbatim>\<open>nightBus\<close> \<^verbatim>\<open>night_bus\<close>, else \<^verbatim>\<open>bus\<close>; \<^verbatim>\<open>tram\<close>,
  \<^verbatim>\<open>metro\<close> and \<^verbatim>\<open>funicular\<close> stay; a leg without a primary mode is
  \<^verbatim>\<open>public_transport\<close>.
\<close>

theorem timed_leg_mode_table:
  assumes "xpath_desc (ojp ''LegBoard'') leg_elem \<noteq> []"
    and "xpath_desc (ojp ''LegAlight'') leg_elem \<noteq> []"
    and "mode_table (primary_mode leg_elem) (rail_submode leg_elem) (bus_submode leg_elem)
           = Some m"
  shows "\<exists>leg. parse_timed_leg rt leg_elem = Some leg \<and> mode leg = m"
proof -
  from assms(1) obtain b bs where b: "xpath_desc (ojp ''LegBoard'') leg_elem = b # bs"
    by (cases "xpath_desc (ojp ''LegBoard'') leg_elem") simp_all
  from assms(2) obtain a as where a: "xpath_desc (ojp ''LegAlight'') leg_elem = a # as"
    by (cases "xpath_desc (ojp ''LegAlight'') leg_elem") simp_all
  show ?thesis
  proof (cases "xpath_desc (ojp ''Service'') leg_elem")
    case Nil
    with assms(3) have "m = ''public_transport''"
      by (simp add: primary_mode_def mode_table_def)
    with Nil a b show ?thesis by (simp add: parse_timed_leg_def mk_Leg_def)
  next
    case (Cons service rest)
    with assms(3) have "service_mode service = m"
      by (intro service_mode_table) (simp add: primary_mode_def rail_submode_def bus_submode_def)
    with Cons a b show ?thesis by (simp add: parse_timed_leg_def mk_Leg_def)
  qed
qed

theorem timed_leg_mode_table_witness:
  "xpath_desc (ojp ''LegBoard'')
      (example_rail_leg [Element (siri ''RailSubmode'') (Some ''highSpeedRail'') []]) \<noteq> []
   \<and> xpath_desc (ojp ''LegAlight'')
      (example_rail_leg [Element (siri ''RailSubmode'') (Some ''highSpeedRail'') []]) \<noteq> []
   \<and> primary_mode
       (example_rail_leg [Element (siri ''RailSubmode'') (Some ''highSpeedRail'') []])
       = Some ''rail''
   \<and> rail_submode
       (example_rail_leg [Element (siri ''RailSubmode'') (Some ''highSpeedRail'') []])
       = Some ''highSpeedRail''
   \<and> (\<exists>leg. parse_timed_leg example_runtime
         (example_rail_leg [Element (siri ''RailSubmode'') (Some ''highSpeedRail'') []])
         = Some leg \<and> mode leg = ''high_speed_rail'')"
proof -
  let ?e = "example_rail_leg [Element (siri ''RailSubmode'') (Some ''highSpeedRail'') []]"
  have b: "xpath_desc (ojp ''LegBoard'') ?e \<noteq> []"
    by (simp add: example_rail_leg_def example_defs xpath_defs)
  have a: "xpath_desc (ojp ''LegAlight'') ?e \<noteq> []"
    by (simp add: example_rail_leg_def example_defs xpath_defs)
  have p: "primary_mode ?e = Some ''rail''"
    by (simp add: example_rail_leg_def example_defs xpath_defs primary_mode_def present_def
          truthy_def py_lower_def py_lower_char_def)
  have r: "rail_submode ?e = Some ''highSpeedRail''"
    by (simp add: example_rail_leg_def example_defs xpath_defs rail_submode_def present_def
          truthy_def)
  have m: "mode_table (primary_mode ?e) (rail_submode ?e) (bus_submode ?e)
             = Some ''high_speed_rail''"
    by (simp add: p r mode_table_def)
  from timed_leg_mode_table[OF b a m, of example_runtime] b a p r show ?thesis by simp
qed

section \<open>Trip Assembler: the emitted trip\<close>

lemma first_departure_None:
  "first_departure ls = None \<Longrightarrow> leg \<in> set ls \<Longrightarrow> departure_time leg = None"
  by (induction ls) (auto split: option.splits)

lemma first_arrival_None:
  "first_arrival ls = None \<Longrightarrow> leg \<in> set ls \<Longrightarrow> arrival_time leg = None"
  by (induction ls) (auto split: option.splits)

lemma last_arrival_None:
  "last_arrival ls = None \<Longrightarrow> ls \<noteq> [] \<Longrightarrow> arrival_time (last ls) = None"
  unfolding last_arrival_def by (rule first_arrival_None[where ls = "rev ls"]) simp_all

lemma assemble_trip_Some:
  assumes "assemble_trip ls = Some t"
  shows "\<exists>d a. first_departure ls = Some d \<and> last_arrival ls = Some a
           \<and> minutes_between d a = Inr (total_duration_minutes t)
           \<and> legs t = ls \<and> trip_departure_time t = d \<and> trip_arrival_time t = a
           \<and> transfers t = count_transfers ls"
proof (cases ls)
  case Nil
  with assms show ?thesis by (simp add: assemble_trip_def)
next
  case (Cons x xs)
  then have ne: "ls \<noteq> []" by simp
  show ?thesis
  proof (cases "first_departure ls")
    case None
    then have "departure_time x = None" using Cons by (simp split: option.splits)
    with assms Cons None show ?thesis
      by (simp add: assemble_trip_def mk_Trip_def Let_def split: sum.splits option.splits)
  next
    case (Some d)
    note dep = this
    show ?thesis
    proof (cases "last_arrival ls")
      case None
      then have "arrival_time (last ls) = None" using ne by (rule last_arrival_None)
      with assms Cons None dep show ?thesis
        by (auto simp add: assemble_trip_def mk_Trip_def Let_def
                 split: sum.splits option.splits)
    next
      case (Some a)
      with assms Cons dep show ?thesis
        by (auto simp add: assemble_trip_def mk_Trip_def total_duration_def Let_def
                 split: sum.splits option.splits)
    qed
  qed
qed

lemma decode_legs_walk_trip:
  "decode_legs example_runtime example_walk_trip =
     [mk_Leg ''walk'' unknown_location unknown_location None None (Some 5) None None]"
  by (simp add: decode_legs_def List.map_filter_def example_defs xpath_defs leg_defs
        duration_defs)

text \<open>
  Claim C1. A trip result in which a leg decodes is said to give a Trip even when no leg
  carries a departure or an arrival instant, the Trip then holding the absent times of
  its first and last leg. The code does not: the trip result below holds one walking
  leg of five minutes, which decodes, and no Trip comes out of it. The \<^verbatim>\<open>Trip\<close> model
  declares both times as \<^verbatim>\<open>datetime\<close>, its constructor refuses \<^verbatim>\<open>None\<close>, and
  \<^verbatim>\<open>_parse_trip\<close> turns that exception into \<^verbatim>\<open>None\<close>.
\<close>

theorem walking_only_trip_is_dropped:
  "decode_legs example_runtime example_walk_trip =
     [mk_Leg ''walk'' unknown_location unknown_location None None (Some 5) None None]
   \<and> parse_trip example_runtime example_walk_trip = None"
  unfolding parse_trip_def decode_legs_walk_trip by (simp add: trip_defs mk_Leg_def)

text \<open>
  Claim C5. The transfer count of every emitted Trip is the number of its legs whose
  mode is neither \<^verbatim>\<open>walk\<close> nor \<^verbatim>\<open>walking\<close>, less one, and never below 0; a trip of
  one walking leg has the count 0. (\<open>parse_trip\<close> is \<open>assemble_trip\<close> on the decoded
  legs.)
\<close>

theorem transfer_count:
  "assemble_trip ls = Some t \<Longrightarrow>
     transfers t =
       max 0 (int (card {i. i < length (legs t) \<and> mode (legs t ! i) \<noteq> ''walk''
                            \<and> mode (legs t ! i) \<noteq> ''walking''}) - 1)
     \<and> ((\<exists>leg. ls = [leg] \<and> (mode leg = ''walk'' \<or> mode leg = ''walking''))
          \<longrightarrow> transfers t = 0)"
proof -
  assume "assemble_trip ls = Some t"
  then obtain l: "legs t = ls" and c: "transfers t = count_transfers ls"
    using assemble_trip_Some by blast
  have "transfers t =
       max 0 (int (card {i. i < length (legs t) \<and> mode (legs t ! i) \<noteq> ''walk''
                            \<and> mode (legs t ! i) \<noteq> ''walking''}) - 1)"
    using l c by (simp add: count_transfers_def length_filter_conv_card)
  moreover have "(\<exists>leg. ls = [leg] \<and> (mode leg = ''walk'' \<or> mode leg = ''walking''))
          \<longrightarrow> transfers t = 0"
    using c by (auto simp add: count_transfers_def)
  ultimately show ?thesis by simp
qed

theorem transfer_count_witness:
  "\<exists>t. assemble_trip
          [mk_Leg ''walk'' unknown_location unknown_location (Some (clock None 0 9 0))
             (Some (clock None 0 9 5)) None None None] = Some t
       \<and> transfers t = 0"
proof -
  obtain t where a: "assemble_trip
          [mk_Leg ''walk'' unknown_location unknown_location (Some (clock None 0 9 0))
             (Some (clock None 0 9 5)) None None None] = Some t"
    by (simp add: trip_defs mk_Leg_def clock_def)
  have "transfers t = 0"
    using transfer_count[OF a] by (simp add: mk_Leg_def)
  with a show ?thesis by blast
qed

lemma sum_leg_durations_nonneg:
  "\<forall>leg\<in>set ls. \<forall>c. leg_contribution leg = Inr c \<longrightarrow> 0 \<le> c \<Longrightarrow> 0 \<le> acc \<Longrightarrow>
     sum_leg_durations acc ls = Inr tot \<Longrightarrow> 0 \<le> tot"
proof (induction ls arbitrary: acc)
  case Nil
  then show ?case by simp
next
  case (Cons leg rest)
  from Cons.prems(3) obtain c where c: "leg_contribution leg = Inr c"
    and r: "sum_leg_durations (acc + c) rest = Inr tot"
    by (auto split: sum.splits)
  from c Cons.prems(1) have "0 \<le> c" by simp
  with Cons.prems(2) have "0 \<le> acc + c" by simp
  moreover from Cons.prems(1)
  have "\<forall>leg\<in>set rest. \<forall>c. leg_contribution leg = Inr c \<longrightarrow> 0 \<le> c" by simp
  ultimately show ?case using Cons.IH r by blast
qed

lemma whole_minutes_nonneg: "0 \<le> d \<Longrightarrow> 0 \<le> whole_minutes d"
  by (simp add: whole_minutes_def sgn_if pos_imp_zdiv_nonneg_iff)

text \<open>
  Claim C8, as stated: the total duration of every emitted Trip is at least 0. It is
  not: the trip result below holds one bus leg that leaves at 10:00 and arrives at
  09:00, a Trip comes out of it, and its total duration is - 60 minutes. Nothing in
  \<^verbatim>\<open>_parse_trip\<close> or in the \<^verbatim>\<open>Trip\<close> model bounds the difference.
\<close>

theorem negative_total_duration:
  "map_option total_duration_minutes (parse_trip example_runtime example_late_trip)
     = Some (- 60)"
  by (simp add: parse_trip_def decode_legs_def List.map_filter_def example_defs xpath_defs
        leg_defs trip_defs is_digit_def digit_val_def)

text \<open>
  Claim C8, amended. The total duration of an emitted Trip is the whole minutes of
  arrival less departure, and it is at least 0 when the trip's arrival is not earlier
  than its departure. The sum the fallback computes (no departure or no arrival found)
  is at least 0 when no leg contributes a negative number of minutes.
\<close>

theorem total_duration_nonneg:
  "(assemble_trip ls = Some t
      \<and> datetime_sub (trip_arrival_time t) (trip_departure_time t) = Inr td \<and> 0 \<le> td
      \<longrightarrow> total_duration_minutes t = whole_minutes td \<and> 0 \<le> total_duration_minutes t)
   \<and> ((dep = None \<or> arr = None)
        \<and> (\<forall>leg\<in>set ms. \<forall>c. leg_contribution leg = Inr c \<longrightarrow> 0 \<le> c)
        \<and> total_duration ms dep arr = Inr tot
      \<longrightarrow> 0 \<le> tot)"
proof -
  have a: "assemble_trip ls = Some t
      \<and> datetime_sub (trip_arrival_time t) (trip_departure_time t) = Inr td \<and> 0 \<le> td
      \<longrightarrow> total_duration_minutes t = whole_minutes td \<and> 0 \<le> total_duration_minutes t"
  proof (intro impI, elim conjE)
    assume e: "assemble_trip ls = Some t"
      and s: "datetime_sub (trip_arrival_time t) (trip_departure_time t) = Inr td"
      and n: "0 \<le> td"
    from assemble_trip_Some[OF e]
    have "minutes_between (trip_departure_time t) (trip_arrival_time t)
            = Inr (total_duration_minutes t)"
      by auto
    with s have "total_duration_minutes t = whole_minutes td"
      by (simp add: minutes_between_def)
    with n show "total_duration_minutes t = whole_minutes td \<and> 0 \<le> total_duration_minutes t"
      by (simp add: whole_minutes_nonneg)
  qed
  have b: "(dep = None \<or> arr = None)
        \<and> (\<forall>leg\<in>set ms. \<forall>c. leg_contribution leg = Inr c \<longrightarrow> 0 \<le> c)
        \<and> total_duration ms dep arr = Inr tot
      \<longrightarrow> 0 \<le> tot"
  proof (intro impI, elim conjE)
    assume d: "dep = None \<or> arr = None"
      and l: "\<forall>leg\<in>set ms. \<forall>c. leg_contribution leg = Inr c \<longrightarrow> 0 \<le> c"
      and t: "total_duration ms dep arr = Inr tot"
    from d t have "sum_leg_durations 0 ms = Inr tot"
      by (auto simp add: total_duration_def split: option.splits)
    with l show "0 \<le> tot" using sum_leg_durations_nonneg[of ms 0 tot] by simp
  qed
  from a b show ?thesis by blast
qed

theorem total_duration_nonneg_witness:
  "\<exists>t. assemble_trip
          [mk_Leg ''bus'' unknown_location unknown_location (Some (clock None 0 9 0))
             (Some (clock None 0 9 20)) None None None] = Some t
       \<and> datetime_sub (trip_arrival_time t) (trip_departure_time t) = Inr 1200000000
       \<and> total_duration_minutes t = 20
       \<and> total_duration
            [mk_Leg ''walk'' unknown_location unknown_location None None (Some 5) None None]
            None None = Inr 5"
proof -
  obtain t where a: "assemble_trip
          [mk_Leg ''bus'' unknown_location unknown_location (Some (clock None 0 9 0))
             (Some (clock None 0 9 20)) None None None] = Some t"
    by (simp add: trip_defs mk_Leg_def clock_def)
  have s: "datetime_sub (trip_arrival_time t) (trip_departure_time t) = Inr 1200000000"
    using a by (auto simp add: trip_defs mk_Leg_def clock_def)
  have w: "total_duration
            [mk_Leg ''walk'' unknown_location unknown_location None None (Some 5) None None]
            None None = Inr 5"
    by (simp add: trip_defs mk_Leg_def)
  have c: "\<forall>leg\<in>set [mk_Leg ''walk'' unknown_location unknown_location None None (Some 5)
                         None None].
             \<forall>c. leg_contribution leg = Inr c \<longrightarrow> 0 \<le> c"
    by (simp add: trip_defs mk_Leg_def)
  have "total_duration_minutes t = whole_minutes 1200000000 \<and> (0::int) \<le> 5"
    using total_duration_nonneg[where ls = "[mk_Leg ''bus'' unknown_location unknown_location
             (Some (clock None 0 9 0)) (Some (clock None 0 9 20)) None None None]"
        and t = t and td = 1200000000 and dep = None and arr = None
        and ms = "[mk_Leg ''walk'' unknown_location unknown_location None None (Some 5)
                     None None]" and tot = 5] a s w c
    by simp
  then have "total_duration_minutes t = 20" by (simp add: whole_minutes_def)
  with a s w show ?thesis by blast
qed

text \<open>
  Claim C4, as stated: the four legs (a timed leg without times or duration, a timed leg
  09:00 to 09:20, a walk of five minutes, a timed leg 09:30 to 10:00) give a Trip from
  09:00 to 10:00 of 60 minutes with 1 transfer. Departure, arrival and duration are as
  said, but the three timed legs are three legs that are not walking, so the count is
  2: the document below decodes to these four legs.
\<close>

theorem four_leg_trip_has_two_transfers:
  "map_option (\<lambda>t. (map mode (legs t), trip_departure_time t, trip_arrival_time t,
                     total_duration_minutes t, transfers t))
     (parse_trip example_runtime example_four_leg_trip)
   = Some ([''public_transport'', ''bus'', ''walk'', ''high_speed_rail''],
           clock None 0 9 0, clock None 0 10 0, 60, 2)"
  by (simp add: parse_trip_def decode_legs_def List.map_filter_def example_defs xpath_defs
        leg_defs rail_mode_def duration_defs trip_defs)

text \<open>
  Claim C4, amended: for these four legs, the three timed ones having modes other than
  \<^verbatim>\<open>walk\<close> and \<^verbatim>\<open>walking\<close>, the Trip Assembler produces a Trip with departure 09:00,
  arrival 10:00, a total duration of 60 minutes and a transfer count of 2.
\<close>

theorem four_leg_trip:
  assumes "departure_time l1 = None" and "arrival_time l1 = None"
    and "duration_minutes l1 = None"
    and "departure_time l2 = Some (clock tz day 9 0)"
    and "arrival_time l2 = Some (clock tz day 9 20)"
    and "mode l3 = ''walk'' \<or> mode l3 = ''walking''" and "duration_minutes l3 = Some 5"
    and "departure_time l3 = None" and "arrival_time l3 = None"
    and "departure_time l4 = Some (clock tz day 9 30)"
    and "arrival_time l4 = Some (clock tz day 10 0)"
    and "mode l1 \<notin> {''walk'', ''walking''}" and "mode l2 \<notin> {''walk'', ''walking''}"
    and "mode l4 \<notin> {''walk'', ''walking''}"
  shows "\<exists>t. assemble_trip [l1, l2, l3, l4] = Some t
           \<and> trip_departure_time t = clock tz day 9 0
           \<and> trip_arrival_time t = clock tz day 10 0
           \<and> total_duration_minutes t = 60 \<and> transfers t = 2"
  using assms by (cases tz) (auto simp add: trip_defs clock_def)

theorem four_leg_trip_witness:
  "\<exists>t. assemble_trip
          [mk_Leg ''rail'' unknown_location unknown_location None None None None None,
           mk_Leg ''tram'' unknown_location unknown_location (Some (clock (Some 0) 3 9 0))
             (Some (clock (Some 0) 3 9 20)) None None None,
           mk_Leg ''walking'' unknown_location unknown_location None None (Some 5) None None,
           mk_Leg ''s_bahn'' unknown_location unknown_location (Some (clock (Some 0) 3 9 30))
             (Some (clock (Some 0) 3 10 0)) None None None] = Some t
       \<and> trip_departure_time t = clock (Some 0) 3 9 0
       \<and> trip_arrival_time t = clock (Some 0) 3 10 0
       \<and> total_duration_minutes t = 60 \<and> transfers t = 2"
  by (rule four_leg_trip) (simp_all add: mk_Leg_def)

section \<open>Document Parser: the envelope\<close>

text \<open>
  Claim C6. When the buffer is not a well-formed document (the library's parser
  raises), each entry point returns an envelope: success is false, the error message
  is there and not empty, and the result collection is empty.
\<close>

theorem malformed_document_envelope:
  "fromstring rt xml_content = Inl msg \<Longrightarrow>
     \<not> trip_success (parse_trip_response rt xml_content)
     \<and> (\<exists>m. trip_error_message (parse_trip_response rt xml_content) = Some m \<and> m \<noteq> [])
     \<and> trips (parse_trip_response rt xml_content) = []
     \<and> \<not> location_success (parse_location_response rt xml_content)
     \<and> (\<exists>m. location_error_message (parse_location_response rt xml_content) = Some m
            \<and> m \<noteq> [])
     \<and> locations (parse_location_response rt xml_content) = []"
  by (simp add: parse_trip_response_def parse_location_response_def)

theorem malformed_document_envelope_witness:
  "fromstring example_runtime ''<OJP>'' = Inl ''Start tag expected''
   \<and> \<not> trip_success (parse_trip_response example_runtime ''<OJP>'')
   \<and> trip_error_message (parse_trip_response example_runtime ''<OJP>'')
       = Some ''Failed to parse trip response: Start tag expected''
   \<and> trips (parse_trip_response example_runtime ''<OJP>'') = []
   \<and> \<not> location_success (parse_location_response example_runtime ''<OJP>'')
   \<and> locations (parse_location_response example_runtime ''<OJP>'') = []"
proof -
  have f: "fromstring example_runtime ''<OJP>'' = Inl ''Start tag expected''"
    by (simp add: example_runtime_def)
  have "trip_error_message (parse_trip_response example_runtime ''<OJP>'')
       = Some ''Failed to parse trip response: Start tag expected''"
    using f by (simp add: parse_trip_response_def)
  with f malformed_document_envelope[OF f] show ?thesis by simp
qed

lemma map_filter_Some:
  "map Some (List.map_filter f xs) = filter (\<lambda>y. y \<noteq> None) (map f xs)"
  by (induction xs) (auto simp add: List.map_filter_def)

lemma map_filter_length:
  "length (List.map_filter f xs) + length (filter (\<lambda>x. f x = None) xs) = length xs"
  by (induction xs) (auto simp add: List.map_filter_def)

lemma map_filter_one_None:
  "length (filter (\<lambda>x. f x = None) xs) = 1 \<Longrightarrow> length (List.map_filter f xs) = length xs - 1"
  using map_filter_length[of f xs] by linarith

text \<open>
  Claim C7. In a well-formed document, a result element that fails to decode is
  skipped: the envelope says success, and it holds the decoded siblings, each in its
  place. When exactly one of the N result elements fails, it holds N - 1 trips, or
  locations.
\<close>

theorem one_failing_result_is_skipped:
  "fromstring rt xml_content = Inr doc \<Longrightarrow>
     trip_success (parse_trip_response rt xml_content)
     \<and> map Some (trips (parse_trip_response rt xml_content))
         = filter (\<lambda>y. y \<noteq> None) (map (parse_trip rt) (xpath_all (ojp ''TripResult'') doc))
     \<and> (length (filter (\<lambda>e. parse_trip rt e = None) (xpath_all (ojp ''TripResult'') doc)) = 1
          \<longrightarrow> length (trips (parse_trip_response rt xml_content))
                = length (xpath_all (ojp ''TripResult'') doc) - 1)
     \<and> location_success (parse_location_response rt xml_content)
     \<and> map Some (locations (parse_location_response rt xml_content))
         = filter (\<lambda>y. y \<noteq> None)
             (map (parse_place_result rt) (xpath_all (ojp ''PlaceResult'') doc))
     \<and> (length (filter (\<lambda>e. parse_place_result rt e = None)
                  (xpath_all (ojp ''PlaceResult'') doc)) = 1
          \<longrightarrow> length (locations (parse_location_response rt xml_content))
                = length (xpath_all (ojp ''PlaceResult'') doc) - 1)"
  by (simp add: parse_trip_response_def parse_location_response_def map_filter_Some
        map_filter_one_None)

lemma example_trip_results:
  "xpath_all (ojp ''TripResult'') example_doc = [example_bus_trip, example_walk_trip]"
  by (simp add: example_defs xpath_defs)

lemma example_place_results:
  "xpath_all (ojp ''PlaceResult'') example_doc =
     [example_place [node ''Name'' [leaf ''Text'' ''Bern'']] [leaf ''Probability'' ''0.5''],
      example_place [] []]"
  by (simp add: example_defs xpath_defs)

lemma example_bus_trip_decodes:
  "parse_trip example_runtime example_bus_trip \<noteq> None"
  by (simp add: parse_trip_def decode_legs_def List.map_filter_def example_defs xpath_defs
        leg_defs trip_defs is_digit_def digit_val_def)

lemma example_walk_trip_fails: "parse_trip example_runtime example_walk_trip = None"
  unfolding parse_trip_def decode_legs_walk_trip by (simp add: trip_defs mk_Leg_def)

lemma example_named_place_decodes:
  "parse_place_result example_runtime
     (example_place [node ''Name'' [leaf ''Text'' ''Bern'']] [leaf ''Probability'' ''0.5''])
   = Some \<lparr>location_id = None, name = ''Bern'', coordinates = None, location_type = Stop,
            probability = Some (Finite (1 / 2))\<rparr>"
  by (simp add: example_defs xpath_defs place_defs)

lemma example_empty_place_fails:
  "parse_place_result example_runtime (example_place [] []) = None"
  by (simp add: example_defs xpath_defs place_defs)

theorem one_failing_result_is_skipped_witness:
  "fromstring example_runtime ''<OJP>...</OJP>'' = Inr example_doc
   \<and> length (xpath_all (ojp ''TripResult'') example_doc) = 2
   \<and> length (filter (\<lambda>e. parse_trip example_runtime e = None)
               (xpath_all (ojp ''TripResult'') example_doc)) = 1
   \<and> trip_success (parse_trip_response example_runtime ''<OJP>...</OJP>'')
   \<and> length (trips (parse_trip_response example_runtime ''<OJP>...</OJP>'')) = 1
   \<and> length (xpath_all (ojp ''PlaceResult'') example_doc) = 2
   \<and> length (filter (\<lambda>e. parse_place_result example_runtime e = None)
               (xpath_all (ojp ''PlaceResult'') example_doc)) = 1
   \<and> location_success (parse_location_response example_runtime ''<OJP>...</OJP>'')
   \<and> length (locations (parse_location_response example_runtime ''<OJP>...</OJP>'')) = 1"
proof -
  have f: "fromstring example_runtime ''<OJP>...</OJP>'' = Inr example_doc"
    by (simp add: example_runtime_def)
  have t: "length (filter (\<lambda>e. parse_trip example_runtime e = None)
               (xpath_all (ojp ''TripResult'') example_doc)) = 1"
    using example_bus_trip_decodes
    by (simp add: example_trip_results example_walk_trip_fails)
  have l: "length (filter (\<lambda>e. parse_place_result example_runtime e = None)
               (xpath_all (ojp ''PlaceResult'') example_doc)) = 1"
    by (simp add: example_place_results example_named_place_decodes
          example_empty_place_fails)
  from one_failing_result_is_skipped[OF f] f t l show ?thesis
    by (simp add: example_trip_results example_place_results)
qed

end
